theory Spec2Isabelle
  imports Main
begin

section \<open>JavaScript values and plain objects\<close>

text \<open>
  A number is \<open>NaN\<close>, an integer of magnitude below \<open>2^53\<close>, which a double holds
  exactly, or a number of larger magnitude, possibly an infinity, of which the model
  keeps the sign only (\<open>True\<close> for negative).  Fractions do not occur in what is
  modelled.
\<close>

datatype js_number = NaN | Safe int | Huge bool

text \<open>
  The values a request object can carry: route parameters are strings, a parsed JSON body
  holds arbitrary values.  Functions, arrays and nested objects only matter here through
  their truthiness and through never being strictly equal to a string, so they are one
  constructor.
\<close>

datatype js_value = JUndefined | JNull | JBool bool | JNum js_number | JStr string | JObj

fun truthy :: "js_value \<Rightarrow> bool" where
  "truthy JUndefined = False"
| "truthy JNull = False"
| "truthy (JBool b) = b"
| "truthy (JNum NaN) = False"
| "truthy (JNum (Safe n)) = (n \<noteq> 0)"
| "truthy (JNum (Huge negative)) = True"
| "truthy (JStr s) = (s \<noteq> [])"
| "truthy JObj = True"

text \<open>
  A plain object literal inherits from \<open>Object.prototype\<close>: reading a name it does not
  own yields the inherited member (a function, or the prototype itself for
  \<open>__proto__\<close>) when there is one and \<open>undefined\<close> otherwise.
\<close>

definition object_prototype_keys :: "string list" where
  "object_prototype_keys =
     [''constructor'', ''__defineGetter__'', ''__defineSetter__'', ''hasOwnProperty'',
      ''__lookupGetter__'', ''__lookupSetter__'', ''isPrototypeOf'',
      ''propertyIsEnumerable'', ''toString'', ''valueOf'', ''__proto__'',
      ''toLocaleString'']"

definition js_get :: "(string \<rightharpoonup> js_value) \<Rightarrow> string \<Rightarrow> js_value" where
  "js_get obj k =
     (case obj k of
        Some v \<Rightarrow> v
      | None \<Rightarrow> if k \<in> set object_prototype_keys then JObj else JUndefined)"

section \<open>The error taxonomy\<close>

text \<open>
  \<open>AppError\<close> and its subclasses.  The constructor reads the clock for
  \<open>timestamp\<close>; the model takes the ISO string as the argument \<open>ts\<close>.  Optional
  constructor parameters are options, and the default values of the source
  (\<open>statusCode = 500\<close>, \<open>isOperational = true\<close>) are written out at each call.
  \<open>details\<close> is the field the subclass \<open>ValidationError\<close> adds: an object whose
  keys are dot-joined field paths.
\<close>

record app_error =
  name :: string
  message :: string
  statusCode :: nat
  isOperational :: bool
  timestamp :: string
  path :: "string option"
  "method" :: "string option"
  details :: "(string \<rightharpoonup> string list) option"

text \<open>\<open>if (path) this.path = path\<close>: an empty string is falsy and is not stored.\<close>

definition if_set :: "string option \<Rightarrow> string option" where
  "if_set v = (case v of None \<Rightarrow> None | Some s \<Rightarrow> if s = [] then None else Some s)"

definition AppError ::
  "string \<Rightarrow> string \<Rightarrow> nat \<Rightarrow> bool \<Rightarrow> string option \<Rightarrow> string option \<Rightarrow> app_error" where
  "AppError ts msg status operational pth mth =
     \<lparr>name = ''AppError'', message = msg, statusCode = status, isOperational = operational,
      timestamp = ts, path = if_set pth, method = if_set mth, details = None\<rparr>"

definition AuthError :: "string \<Rightarrow> string \<Rightarrow> string option \<Rightarrow> string option \<Rightarrow> app_error" where
  "AuthError ts msg pth mth = (AppError ts msg 401 True pth mth)\<lparr>name := ''AuthError''\<rparr>"

definition AuthorizationError ::
  "string \<Rightarrow> string \<Rightarrow> string option \<Rightarrow> string option \<Rightarrow> app_error" where
  "AuthorizationError ts msg pth mth =
     (AppError ts msg 403 True pth mth)\<lparr>name := ''AuthorizationError''\<rparr>"

definition ValidationError ::
  "string \<Rightarrow> string \<Rightarrow> (string \<rightharpoonup> string list) option \<Rightarrow> string option \<Rightarrow> string option
     \<Rightarrow> app_error" where
  "ValidationError ts msg dets pth mth =
     (AppError ts msg 400 True pth mth)\<lparr>name := ''ValidationError'', details := dets\<rparr>"

text \<open>
  What a \<open>catch\<close> can receive: the four fault classes of the storage client, an
  application error, or any other \<open>Error\<close> (with its \<open>name\<close> and \<open>message\<close>).
\<close>

datatype thrown =
    PrismaClientKnownRequestError string
  | PrismaClientValidationError
  | PrismaClientInitializationError
  | PrismaClientRustPanicError
  | AppErr app_error
  | JsError string string

fun handlePrismaError :: "string \<Rightarrow> thrown \<Rightarrow> app_error" where
  "handlePrismaError ts (PrismaClientKnownRequestError code) =
     (if code = ''P2002'' then
        AppError ts ''A record with this information already exists'' 409 True None None
      else if code = ''P2025'' then AppError ts ''Record not found'' 404 True None None
      else if code = ''P2003'' then
        AppError ts ''Foreign key constraint failed'' 400 True None None
      else if code = ''P2014'' then AppError ts ''Invalid ID provided'' 400 True None None
      else AppError ts ''Database operation failed'' 500 True None None)"
| "handlePrismaError ts PrismaClientValidationError =
     AppError ts ''Invalid data provided'' 400 True None None"
| "handlePrismaError ts PrismaClientInitializationError =
     AppError ts ''Database connection failed'' 500 True None None"
| "handlePrismaError ts PrismaClientRustPanicError =
     AppError ts ''Database engine error'' 500 True None None"
| "handlePrismaError ts e = AppError ts ''Database operation failed'' 500 True None None"

section \<open>Token service\<close>

subsection \<open>Configuration and payloads\<close>

text \<open>
  The \<open>jwt\<close> part of \<open>Config\<close>.  The two lifetimes are configured as spans such as
  \<open>15m\<close>; the model holds the number of seconds the signing library derives from them.
\<close>

record jwt_config =
  secret :: string
  refreshSecret :: string
  expiresIn :: nat
  refreshExpiresIn :: nat
  issuer :: string
  audience :: string

text \<open>
  \<open>Omit<JWTPayload, 'iat' | 'exp'>\<close> is the identity handed to the issuers;
  \<open>JWTPayload\<close> is what verification returns: the identity with the registered claims
  a token may carry.
\<close>

record jwt_identity =
  userId :: string
  email :: string

record jwt_payload = jwt_identity +
  iat :: "nat option"
  nbf :: "nat option"
  exp :: "nat option"
  iss :: "string option"
  aud :: "string option"

subsection \<open>The signing library\<close>

text \<open>
  \<open>jwt.sign\<close> and \<open>jwt.verify\<close> belong to the package \<open>jsonwebtoken\<close>.  The model
  keeps what the calls in \<open>JWTUtils\<close> depend on.  A token is a header naming the
  algorithm, a payload and a signature.  The keyed hash is symbolic: a signature either is
  the MAC of a signing input under a key, or some other bytes, and two MACs are equal only
  when algorithm, key and signing input are.  The compact serialisation (three base64url
  segments joined by dots) is a pair of parameters: \<open>enc\<close> writes a token as a string and
  \<open>dec\<close> reads a string, returning \<open>None\<close> for a string that is not three decodable
  segments.  The clock is the argument \<open>now\<close>, in seconds.
\<close>

datatype jwt_alg = HS256 | HS384 | HS512 | OtherAlg

datatype jws_signature = Hmac jwt_alg string jwt_alg jwt_payload | OtherBytes string

record jws =
  jws_alg :: jwt_alg
  jws_payload :: jwt_payload
  jws_sig :: jws_signature

datatype jwt_error = JsonWebTokenError string | TokenExpiredError | NotBeforeError

text \<open>
  \<open>jwt.sign(payload, key, {expiresIn, issuer, audience})\<close> with the default algorithm:
  it refuses an empty key, stamps \<open>iat\<close> with the clock, sets \<open>exp\<close>, \<open>iss\<close> and
  \<open>aud\<close> from the options and signs.
\<close>

definition jwt_claims :: "nat \<Rightarrow> jwt_identity \<Rightarrow> nat \<Rightarrow> string \<Rightarrow> string \<Rightarrow> jwt_payload" where
  "jwt_claims now ident lifetime issuer' audience' =
     \<lparr>userId = userId ident, email = email ident, iat = Some now, nbf = None,
      exp = Some (now + lifetime), iss = Some issuer', aud = Some audience'\<rparr>"

definition jwt_token :: "string \<Rightarrow> jwt_payload \<Rightarrow> jws" where
  "jwt_token key claims =
     \<lparr>jws_alg = HS256, jws_payload = claims, jws_sig = Hmac HS256 key HS256 claims\<rparr>"

definition jwt_sign ::
  "(jws \<Rightarrow> string) \<Rightarrow> nat \<Rightarrow> jwt_identity \<Rightarrow> string \<Rightarrow> nat \<Rightarrow> string \<Rightarrow> string
     \<Rightarrow> thrown + string" where
  "jwt_sign enc now ident key lifetime issuer' audience' =
     (if key = [] then Inl (JsError ''Error'' ''secretOrPrivateKey must have a value'')
      else Inr (enc (jwt_token key (jwt_claims now ident lifetime issuer' audience'))))"

text \<open>
  \<open>jwt.verify(token, key, {issuer, audience})\<close>: the checks in the library's order.
  With a string key the accepted algorithms default to the three HMAC ones; an option
  that is the empty string is not checked.
\<close>

definition jwt_verify ::
  "(string \<Rightarrow> jws option) \<Rightarrow> nat \<Rightarrow> string \<Rightarrow> string \<Rightarrow> string \<Rightarrow> string
     \<Rightarrow> jwt_error + jwt_payload" where
  "jwt_verify dec now token key issuer' audience' =
     (if token = [] then Inl (JsonWebTokenError ''jwt must be provided'')
      else case dec token of
        None \<Rightarrow> Inl (JsonWebTokenError ''jwt malformed'')
      | Some t \<Rightarrow>
          if key = [] then Inl (JsonWebTokenError ''secret or public key must be provided'')
          else if jws_alg t \<notin> {HS256, HS384, HS512} then
            Inl (JsonWebTokenError ''invalid algorithm'')
          else if jws_sig t \<noteq> Hmac (jws_alg t) key (jws_alg t) (jws_payload t) then
            Inl (JsonWebTokenError ''invalid signature'')
          else if (case nbf (jws_payload t) of None \<Rightarrow> False | Some n \<Rightarrow> n > now) then
            Inl NotBeforeError
          else if (case exp (jws_payload t) of None \<Rightarrow> False | Some e \<Rightarrow> now \<ge> e) then
            Inl TokenExpiredError
          else if audience' \<noteq> [] \<and> aud (jws_payload t) \<noteq> Some audience' then
            Inl (JsonWebTokenError ''jwt audience invalid'')
          else if issuer' \<noteq> [] \<and> iss (jws_payload t) \<noteq> Some issuer' then
            Inl (JsonWebTokenError ''jwt issuer invalid'')
          else Inr (jws_payload t))"

subsection \<open>JWTUtils\<close>

definition generateToken ::
  "jwt_config \<Rightarrow> (jws \<Rightarrow> string) \<Rightarrow> nat \<Rightarrow> jwt_identity \<Rightarrow> thrown + string" where
  "generateToken cfg enc now payload =
     jwt_sign enc now payload (secret cfg) (expiresIn cfg) (issuer cfg) (audience cfg)"

text \<open>Every fault of the library is caught, logged and replaced by one plain \<open>Error\<close>.\<close>

definition verifyToken ::
  "jwt_config \<Rightarrow> (string \<Rightarrow> jws option) \<Rightarrow> nat \<Rightarrow> string \<Rightarrow> thrown + jwt_payload" where
  "verifyToken cfg dec now token =
     (case jwt_verify dec now token (secret cfg) (issuer cfg) (audience cfg) of
        Inr payload \<Rightarrow> Inr payload
      | Inl err \<Rightarrow> Inl (JsError ''Error'' ''Invalid or expired token''))"

text \<open>JavaScript's \<open>s.split(c)\<close> for a one-character separator.\<close>

fun split_on :: "char \<Rightarrow> string \<Rightarrow> string list" where
  "split_on c [] = [[]]"
| "split_on c (x # xs) =
     (if x = c then [] # split_on c xs
      else case split_on c xs of
        [] \<Rightarrow> [[x]]
      | p # ps \<Rightarrow> (x # p) # ps)"

definition extractTokenFromHeader :: "string option \<Rightarrow> thrown + string" where
  "extractTokenFromHeader authHeader =
     (case authHeader of
        None \<Rightarrow> Inl (JsError ''Error'' ''Authorization header is required'')
      | Some h \<Rightarrow>
          if h = [] then Inl (JsError ''Error'' ''Authorization header is required'')
          else let parts = split_on CHR '' '' h in
            if length parts \<noteq> 2 \<or> parts ! 0 \<noteq> ''Bearer'' then
              Inl (JsError ''Error'' ''Invalid authorization header format'')
            else Inr (parts ! 1))"

definition generateRefreshToken ::
  "jwt_config \<Rightarrow> (jws \<Rightarrow> string) \<Rightarrow> nat \<Rightarrow> jwt_identity \<Rightarrow> thrown + string" where
  "generateRefreshToken cfg enc now payload =
     jwt_sign enc now payload (refreshSecret cfg) (refreshExpiresIn cfg) (issuer cfg)
       (audience cfg)"

definition verifyRefreshToken ::
  "jwt_config \<Rightarrow> (string \<Rightarrow> jws option) \<Rightarrow> nat \<Rightarrow> string \<Rightarrow> thrown + jwt_payload" where
  "verifyRefreshToken cfg dec now token =
     (case jwt_verify dec now token (refreshSecret cfg) (issuer cfg) (audience cfg) of
        Inr payload \<Rightarrow> Inr payload
      | Inl err \<Rightarrow> Inl (JsError ''Error'' ''Invalid or expired refresh token''))"

section \<open>Requests and middleware\<close>

text \<open>
  The parts of the Express request the middleware reads or writes.  \<open>body\<close> is
  \<open>None\<close> while no parser has set it.  A middleware ends by calling \<open>next()\<close>, by
  calling \<open>next(err)\<close>, or by throwing.
\<close>

record request =
  authorization :: "string option"
  user :: "jwt_payload option"
  params :: "string \<rightharpoonup> js_value"
  query :: "string \<rightharpoonup> js_value"
  body :: "(string \<rightharpoonup> js_value) option"
  validatedQuery :: "(string \<rightharpoonup> js_value) option"
  req_path :: string
  req_method :: string

datatype outcome = Next request | NextErr thrown | Throws thrown

definition authenticateToken ::
  "string \<Rightarrow> nat \<Rightarrow> jwt_config \<Rightarrow> (string \<Rightarrow> jws option) \<Rightarrow> request \<Rightarrow> outcome" where
  "authenticateToken ts now cfg dec req =
     (case extractTokenFromHeader (authorization req) of
        Inl err \<Rightarrow> NextErr (AppErr (AuthError ts ''Authentication failed'' None None))
      | Inr token \<Rightarrow>
          (case verifyToken cfg dec now token of
             Inl err \<Rightarrow> NextErr (AppErr (AuthError ts ''Authentication failed'' None None))
           | Inr payload \<Rightarrow> Next (req\<lparr>user := Some payload\<rparr>)))"

text \<open>
  \<open>req.params[userIdParam] || req.body[userIdParam]\<close>: the body is read only when the
  path value is falsy, and reading a property of an undefined body throws.  The
  comparison \<open>!==\<close> is strict, so only a string equals the user's id.
\<close>

definition requireOwnership :: "string \<Rightarrow> string \<Rightarrow> request \<Rightarrow> outcome" where
  "requireOwnership ts userIdParam req =
     (case user req of
        None \<Rightarrow> NextErr (AppErr (AuthError ts ''Authentication required'' None None))
      | Some u \<Rightarrow>
          let denied = NextErr (AppErr (AuthError ts
                ''Access denied: You can only access your own resources'' None None));
              fromPath = js_get (params req) userIdParam
          in if truthy fromPath then
               (if JStr (userId u) \<noteq> fromPath then denied else Next req)
             else case body req of
               None \<Rightarrow> Throws (JsError ''TypeError'' ''Cannot read properties of undefined'')
             | Some b \<Rightarrow>
                 if JStr (userId u) \<noteq> js_get b userIdParam then denied else Next req)"

section \<open>The global error handler\<close>

fun handleJWTError :: "string \<Rightarrow> thrown \<Rightarrow> app_error" where
  "handleJWTError ts (JsError nm msg) =
     (if nm = ''JsonWebTokenError'' then AppError ts ''Invalid token'' 401 True None None
      else if nm = ''TokenExpiredError'' then AppError ts ''Token expired'' 401 True None None
      else if nm = ''NotBeforeError'' then AppError ts ''Token not active'' 401 True None None
      else AppError ts ''Authentication failed'' 401 True None None)"
| "handleJWTError ts e = AppError ts ''Authentication failed'' 401 True None None"

text \<open>
  The envelope sent to the client, with the HTTP status.  The stack trace that a
  development deployment adds is not part of the model, and neither is logging.
\<close>

record error_response =
  res_status :: nat
  res_success :: bool
  res_message :: string
  res_statusCode :: nat
  res_timestamp :: string
  res_path :: "string option"
  res_method :: "string option"
  res_details :: "(string \<rightharpoonup> string list) option"

text \<open>
  The first half of \<open>globalErrorHandler\<close>: what was thrown becomes an application
  error.  \<open>node_env\<close> is \<open>process.env.NODE_ENV\<close>.
\<close>

definition toAppError :: "string option \<Rightarrow> string \<Rightarrow> thrown \<Rightarrow> request \<Rightarrow> app_error" where
  "toAppError node_env ts err req =
     (case err of
        AppErr e \<Rightarrow> e
      | JsError nm msg \<Rightarrow>
          if nm = ''JsonWebTokenError'' \<or> nm = ''TokenExpiredError'' \<or> nm = ''NotBeforeError''
          then handleJWTError ts err
          else AppError ts
                 (if node_env = Some ''production'' then ''Something went wrong'' else msg)
                 500 False (Some (req_path req)) (Some (req_method req))
      | _ \<Rightarrow> handlePrismaError ts err)"

text \<open>The second half: the request context is added and the envelope is sent.\<close>

definition globalErrorHandler ::
  "string option \<Rightarrow> string \<Rightarrow> thrown \<Rightarrow> request \<Rightarrow> error_response" where
  "globalErrorHandler node_env ts err req =
     (let e0 = toAppError node_env ts err req;
          e1 = (if path e0 = None then e0\<lparr>path := Some (req_path req)\<rparr> else e0);
          appError = (if method e1 = None then e1\<lparr>method := Some (req_method req)\<rparr> else e1)
      in \<lparr>res_status = statusCode appError, res_success = False,
          res_message = message appError, res_statusCode = statusCode appError,
          res_timestamp = timestamp appError, res_path = path appError,
          res_method = method appError, res_details = details appError\<rparr>)"

section \<open>Validation gate\<close>

text \<open>
  A schema either returns the parsed value, throws a \<open>ZodError\<close> with its issues, or
  throws something else.  An issue has a path (numeric elements written in decimal) and
  a message.
\<close>

record zod_issue =
  issue_path :: "string list"
  issue_message :: string

datatype parse_result =
    Parsed "string \<rightharpoonup> js_value"
  | ZodError "zod_issue list"
  | ParseThrow thrown

datatype source = SBody | SQuery | SParams

text \<open>\<open>path.join('.')\<close>\<close>

fun join_dot :: "string list \<Rightarrow> string" where
  "join_dot [] = []"
| "join_dot [x] = x"
| "join_dot (x # y # ys) = x @ ''.'' @ join_dot (y # ys)"

text \<open>
  The \<open>forEach\<close> over the issues.  \<open>details\<close> starts as the literal \<open>{}\<close>: for a
  key it does not own yet, \<open>details[path]\<close> is \<open>undefined\<close> and the list is created,
  unless the key names a member inherited from \<open>Object.prototype\<close>; that member is
  truthy and has no \<open>push\<close>, so the call throws a \<open>TypeError\<close>.
\<close>

fun collect_details ::
  "zod_issue list \<Rightarrow> (string \<rightharpoonup> string list) \<Rightarrow> thrown + (string \<rightharpoonup> string list)" where
  "collect_details [] details' = Inr details'"
| "collect_details (err # errs) details' =
     (let p = join_dot (issue_path err) in
      case details' p of
        Some msgs \<Rightarrow> collect_details errs (details'(p \<mapsto> msgs @ [issue_message err]))
      | None \<Rightarrow>
          if p \<in> set object_prototype_keys then
            Inl (JsError ''TypeError'' ''details[path].push is not a function'')
          else collect_details errs (details'(p \<mapsto> [issue_message err])))"

definition validate ::
  "string \<Rightarrow> ((string \<rightharpoonup> js_value) option \<Rightarrow> parse_result) \<Rightarrow> source \<Rightarrow> request \<Rightarrow> outcome" where
  "validate ts schema src req =
     (let data = (case src of
                    SBody \<Rightarrow> body req
                  | SQuery \<Rightarrow> Some (query req)
                  | SParams \<Rightarrow> Some (params req))
      in case schema data of
        Parsed validatedData \<Rightarrow>
          Next (case src of
                  SBody \<Rightarrow> req\<lparr>body := Some validatedData\<rparr>
                | SQuery \<Rightarrow> req\<lparr>validatedQuery := Some validatedData\<rparr>
                | SParams \<Rightarrow> req\<lparr>params := validatedData\<rparr>)
      | ZodError issues \<Rightarrow>
          (case collect_details issues Map.empty of
             Inl thrown' \<Rightarrow> Throws thrown'
           | Inr details' \<Rightarrow>
               NextErr (AppErr (ValidationError ts ''Validation failed'' (Some details')
                                  (Some (req_path req)) (Some (req_method req)))))
      | ParseThrow err \<Rightarrow> NextErr err)"

subsection \<open>The pagination schema\<close>

text \<open>
  A \<open>char\<close> stands for a UTF-16 code unit below 256.  The white space that
  \<open>parseInt\<close> skips is every code unit of the classes WhiteSpace and LineTerminator.
\<close>

definition js_whitespace :: "nat \<Rightarrow> bool" where
  "js_whitespace u \<longleftrightarrow>
     u \<in> {0x09, 0x0A, 0x0B, 0x0C, 0x0D, 0x20, 0xA0, 0x1680, 0x2028, 0x2029, 0x202F, 0x205F,
          0x3000, 0xFEFF}
     \<or> (0x2000 \<le> u \<and> u \<le> 0x200A)"

definition digit_value :: "char \<Rightarrow> nat option" where
  "digit_value =
     map_of [(CHR ''0'', 0), (CHR ''1'', 1), (CHR ''2'', 2), (CHR ''3'', 3), (CHR ''4'', 4),
             (CHR ''5'', 5), (CHR ''6'', 6), (CHR ''7'', 7), (CHR ''8'', 8), (CHR ''9'', 9)]"

fun digits_value :: "nat \<Rightarrow> string \<Rightarrow> nat" where
  "digits_value acc [] = acc"
| "digits_value acc (c # cs) =
     (case digit_value c of
        None \<Rightarrow> acc
      | Some d \<Rightarrow> digits_value (10 * acc + d) cs)"

text \<open>
  The number for a mathematical integer: itself while a double holds it exactly, and
  some number of that sign and of magnitude at least \<open>2^53\<close> otherwise (the rounded
  value, or an infinity).
\<close>

definition to_number :: "int \<Rightarrow> js_number" where
  "to_number n = (if \<bar>n\<bar> \<le> 9007199254740991 then Safe n else Huge (n < 0))"

text \<open>
  \<open>parseInt(val, 10)\<close>: leading white space is skipped, a sign is read, then the longest
  run of decimal digits; without a digit the result is \<open>NaN\<close>.
\<close>

definition parseInt :: "string \<Rightarrow> js_number" where
  "parseInt s =
     (let t = dropWhile (\<lambda>c. js_whitespace (of_char c)) s;
          negative = (t \<noteq> [] \<and> hd t = CHR ''-'');
          r = (if t \<noteq> [] \<and> (hd t = CHR ''-'' \<or> hd t = CHR ''+'') then tl t else t)
      in if r = [] \<or> digit_value (hd r) = None then NaN
         else if negative then to_number (- int (digits_value 0 r))
         else to_number (int (digits_value 0 r)))"

text \<open>
  \<open>val > c\<close> and \<open>val <= c\<close> for an integer constant \<open>c\<close> of magnitude below
  \<open>2^53\<close>: every comparison with \<open>NaN\<close> is false.
\<close>

fun js_gt :: "js_number \<Rightarrow> int \<Rightarrow> bool" where
  "js_gt NaN c = False"
| "js_gt (Safe n) c = (n > c)"
| "js_gt (Huge negative) c = (\<not> negative)"

fun js_le :: "js_number \<Rightarrow> int \<Rightarrow> bool" where
  "js_le NaN c = False"
| "js_le (Safe n) c = (n \<le> c)"
| "js_le (Huge negative) c = negative"

text \<open>
  One field of the schema:
  \<open>z.string().optional().transform(val => (val ? parseInt(val, 10) : dflt)).refine(ok, msg)\<close>.
  A value that is neither a string nor undefined stops at \<open>z.string()\<close> with the library's
  own message, the parameter \<open>type_msg\<close>.
\<close>

definition number_field ::
  "(js_value \<Rightarrow> string) \<Rightarrow> string \<Rightarrow> int \<Rightarrow> (js_number \<Rightarrow> bool) \<Rightarrow> string \<Rightarrow> js_value
     \<Rightarrow> zod_issue list + js_number" where
  "number_field type_msg key dflt ok msg v =
     (let refine = (\<lambda>n. if ok n then Inr n
                         else Inl [\<lparr>issue_path = [key], issue_message = msg\<rparr>])
      in case v of
        JUndefined \<Rightarrow> refine (Safe dflt)
      | JStr val \<Rightarrow> refine (if val \<noteq> [] then parseInt val else Safe dflt)
      | _ \<Rightarrow> Inl [\<lparr>issue_path = [key], issue_message = type_msg v\<rparr>])"

definition issues_of :: "zod_issue list + js_number \<Rightarrow> zod_issue list" where
  "issues_of r = (case r of Inl issues \<Rightarrow> issues | Inr v \<Rightarrow> [])"

definition paginationSchema ::
  "(js_value \<Rightarrow> string) \<Rightarrow> (string \<rightharpoonup> js_value) option \<Rightarrow> parse_result" where
  "paginationSchema type_msg data =
     (case data of
        None \<Rightarrow> ZodError [\<lparr>issue_path = [], issue_message = type_msg JUndefined\<rparr>]
      | Some obj \<Rightarrow>
          let page = number_field type_msg ''page'' 1 (\<lambda>val. js_gt val 0)
                       ''Page must be a positive integer'' (js_get obj ''page'');
              limit = number_field type_msg ''limit'' 10 (\<lambda>val. js_gt val 0 \<and> js_le val 100)
                        ''Limit must be between 1 and 100'' (js_get obj ''limit'')
          in case (page, limit) of
               (Inr p, Inr l) \<Rightarrow> Parsed [''page'' \<mapsto> JNum p, ''limit'' \<mapsto> JNum l]
             | _ \<Rightarrow> ZodError (issues_of page @ issues_of limit))"

section \<open>User service and the login route\<close>

text \<open>
  \<open>User\<close> is \<open>UserResponse\<close> with the password hash.  The storage client is an
  external collaborator: a collection of users, or a fault it throws on any call.
  \<open>bcrypt.compare\<close> is the parameter \<open>compare\<close>.
\<close>

record user_response =
  user_id :: string
  user_email :: string
  user_name :: "string option"
  createdAt :: string
  updatedAt :: string

record user = user_response +
  password :: string

datatype storage = Faulty thrown | Users "user list"

definition userToResponse :: "user \<Rightarrow> user_response" where
  "userToResponse u =
     \<lparr>user_id = user_id u, user_email = user_email u, user_name = user_name u,
      createdAt = createdAt u, updatedAt = updatedAt u\<rparr>"

definition userToAuthContext :: "user_response \<Rightarrow> jwt_identity" where
  "userToAuthContext u = \<lparr>userId = user_id u, email = user_email u\<rparr>"

definition findByEmail :: "storage \<Rightarrow> string \<Rightarrow> thrown + user option" where
  "findByEmail db em =
     (case db of
        Faulty fault \<Rightarrow> Inl fault
      | Users us \<Rightarrow> Inr (find (\<lambda>u. user_email u = em) us))"

definition verifyPassword ::
  "(string \<Rightarrow> string \<Rightarrow> bool) \<Rightarrow> storage \<Rightarrow> string \<Rightarrow> string \<Rightarrow> thrown + user_response option" where
  "verifyPassword compare db em pw =
     (case findByEmail db em of
        Inl err \<Rightarrow> Inl err
      | Inr None \<Rightarrow> Inr None
      | Inr (Some u) \<Rightarrow>
          if \<not> compare pw (password u) then Inr None else Inr (Some (userToResponse u)))"

record login_data =
  data_user :: user_response
  accessToken :: string
  refreshToken :: string

datatype handler_result = Json nat login_data | HandlerNext thrown

definition login ::
  "string \<Rightarrow> nat \<Rightarrow> jwt_config \<Rightarrow> (jws \<Rightarrow> string) \<Rightarrow> (string \<Rightarrow> string \<Rightarrow> bool) \<Rightarrow> storage
     \<Rightarrow> string \<Rightarrow> string \<Rightarrow> handler_result" where
  "login ts now cfg enc compare db em pw =
     (case verifyPassword compare db em pw of
        Inl err \<Rightarrow> HandlerNext err
      | Inr None \<Rightarrow> HandlerNext (AppErr (AuthError ts ''Invalid email or password'' None None))
      | Inr (Some u) \<Rightarrow>
          (case generateToken cfg enc now (userToAuthContext u) of
             Inl err \<Rightarrow> HandlerNext err
           | Inr access \<Rightarrow>
               (case generateRefreshToken cfg enc now (userToAuthContext u) of
                  Inl err \<Rightarrow> HandlerNext err
                | Inr refresh \<Rightarrow>
                    Json 200 \<lparr>data_user = u, accessToken = access, refreshToken = refresh\<rparr>)))"

section \<open>Auxiliary notions for the properties\<close>

text \<open>
  What the token properties need from the serialisation: the string written for a token
  is not empty and reads back as that token.
\<close>

definition decodes :: "(jws \<Rightarrow> string) \<Rightarrow> (string \<Rightarrow> jws option) \<Rightarrow> jws \<Rightarrow> bool" where
  "decodes enc dec t \<longleftrightarrow> enc t \<noteq> [] \<and> dec (enc t) = Some t"




text \<open>The white space among the code units below 256, and the decimal digits.\<close>

definition whitespace_chars :: "char list" where
  "whitespace_chars = [CHR 0x09, CHR 0x0A, CHR 0x0B, CHR 0x0C, CHR 0x0D, CHR '' '', CHR 0xA0]"

definition digit_chars :: "char list" where
  "digit_chars = ''0123456789''"





text \<open>The decimal numeral of a natural number.\<close>

fun decimal :: "nat \<Rightarrow> string" where
  "decimal n =
     (if n < 10 then [''0123456789'' ! n]
      else decimal (n div 10) @ [''0123456789'' ! (n mod 10)])"

declare decimal.simps [simp del]

text \<open>The tokens the two issuers sign for an identity at a given time.\<close>

definition access_jws :: "jwt_config \<Rightarrow> nat \<Rightarrow> jwt_identity \<Rightarrow> jws" where
  "access_jws cfg now ident =
     jwt_token (secret cfg) (jwt_claims now ident (expiresIn cfg) (issuer cfg) (audience cfg))"

definition refresh_jws :: "jwt_config \<Rightarrow> nat \<Rightarrow> jwt_identity \<Rightarrow> jws" where
  "refresh_jws cfg now ident =
     jwt_token (refreshSecret cfg)
       (jwt_claims now ident (refreshExpiresIn cfg) (issuer cfg) (audience cfg))"

subsection \<open>Example values\<close>

text \<open>
  A configuration in the shape of the test configuration, an identity, and a
  serialisation that knows the two tokens issued for it at time \<open>1000\<close> and a
  token of another issuer.
\<close>

definition demo_config :: jwt_config where
  "demo_config =
     \<lparr>secret = ''test-secret'', refreshSecret = ''test-refresh-secret'', expiresIn = 3600,
      refreshExpiresIn = 604800, issuer = ''test-issuer'', audience = ''test-audience''\<rparr>"

definition demo_identity :: jwt_identity where
  "demo_identity = \<lparr>userId = ''507f1f77bcf86cd799439011'', email = ''test@example.com''\<rparr>"

definition demo_enc :: "jws \<Rightarrow> string" where
  "demo_enc t = (if t = access_jws demo_config 1000 demo_identity then ''a.a.a'' else ''r.r.r'')"

definition demo_dec :: "string \<Rightarrow> jws option" where
  "demo_dec s =
     (if s = ''a.a.a'' then Some (access_jws demo_config 1000 demo_identity)
      else if s = ''r.r.r'' then Some (refresh_jws demo_config 1000 demo_identity)
      else if s = ''f.f.f'' then
        Some (jwt_token ''test-secret''
                (jwt_claims 1000 demo_identity 3600 ''other-issuer'' ''test-audience''))
      else None)"

definition demo_request :: "string option \<Rightarrow> request" where
  "demo_request header =
     \<lparr>authorization = header, user = None, params = Map.empty, query = Map.empty,
      body = None, validatedQuery = None, req_path = ''/api/v1/auth/me'',
      req_method = ''GET''\<rparr>"

text \<open>
  A request of the authenticated example identity with given path parameters and body.
\<close>

definition demo_owner_request ::
  "(string \<rightharpoonup> js_value) \<Rightarrow> (string \<rightharpoonup> js_value) option \<Rightarrow> request" where
  "demo_owner_request ps b =
     \<lparr>authorization = None,
      user = Some (jwt_claims 1000 demo_identity 3600 ''test-issuer'' ''test-audience''),
      params = ps, query = Map.empty, body = b, validatedQuery = None,
      req_path = ''/api/v1/users/507f1f77bcf86cd799439012'', req_method = ''PUT''\<rparr>"


text \<open>A request for the user list with a given query string, already parsed.\<close>

definition demo_query_request :: "(string \<rightharpoonup> js_value) \<Rightarrow> request" where
  "demo_query_request q =
     \<lparr>authorization = None, user = None, params = Map.empty, query = q, body = None,
      validatedQuery = None, req_path = ''/api/v1/users'', req_method = ''GET''\<rparr>"

text \<open>A stored user, and a stand-in for the comparison of a password with a hash.\<close>

definition demo_user :: user where
  "demo_user =
     \<lparr>user_id = ''507f1f77bcf86cd799439011'', user_email = ''test@example.com'',
      user_name = Some ''Test User'', createdAt = ''2023-01-01T00:00:00.000Z'',
      updatedAt = ''2023-01-01T00:00:00.000Z'', password = ''hash:password123''\<rparr>"

definition demo_compare :: "string \<Rightarrow> string \<Rightarrow> bool" where
  "demo_compare pw hash = (hash = ''hash:'' @ pw)"

section \<open>Properties of the error translation\<close>

text \<open>
  Claim C6, as the code has it.  A unique-constraint fault (\<open>P2002\<close>) becomes a 409 with
  the message "A record with this information already exists".  A known-request fault
  whose code is none of \<open>P2002\<close>, \<open>P2025\<close>, \<open>P2003\<close> and \<open>P2014\<close> falls through to the
  default: status 500, message "Database operation failed", operational.
\<close>

theorem handlePrismaError_known_request:
  "statusCode (handlePrismaError ts (PrismaClientKnownRequestError ''P2002'')) = 409
   \<and> message (handlePrismaError ts (PrismaClientKnownRequestError ''P2002''))
       = ''A record with this information already exists''
   \<and> (code \<notin> {''P2002'', ''P2025'', ''P2003'', ''P2014''} \<longrightarrow>
        statusCode (handlePrismaError ts (PrismaClientKnownRequestError code)) = 500
        \<and> message (handlePrismaError ts (PrismaClientKnownRequestError code))
            = ''Database operation failed''
        \<and> isOperational (handlePrismaError ts (PrismaClientKnownRequestError code)))"
  by (simp add: AppError_def)

theorem handlePrismaError_known_request_witness:
  "''P2010'' \<notin> {''P2002'', ''P2025'', ''P2003'', ''P2014''}
   \<and> statusCode (handlePrismaError ''t'' (PrismaClientKnownRequestError ''P2010'')) = 500
   \<and> message (handlePrismaError ''t'' (PrismaClientKnownRequestError ''P2010''))
       = ''Database operation failed''
   \<and> isOperational (handlePrismaError ''t'' (PrismaClientKnownRequestError ''P2010''))"
  using handlePrismaError_known_request [of "''t''" "''P2010''"] by simp

text \<open>
  Claim C6 as stated lets every code other than the unique-constraint, record-missing and
  foreign-key ones fall through to the 500 default.  The code \<open>P2014\<close> is none of the
  three and has a rule of its own: status 400, "Invalid ID provided".
\<close>

theorem handlePrismaError_P2014_counterexample:
  "''P2014'' \<notin> {''P2002'', ''P2025'', ''P2003''}
   \<and> statusCode (handlePrismaError ''t'' (PrismaClientKnownRequestError ''P2014'')) = 400
   \<and> message (handlePrismaError ''t'' (PrismaClientKnownRequestError ''P2014''))
       = ''Invalid ID provided''"
  by (simp add: AppError_def)

section \<open>Properties of the token service\<close>

subsection \<open>Splitting a header\<close>

lemma split_on_nonempty: "split_on c s \<noteq> []"
  by (induction s) (auto split: list.splits)

lemma split_on_no_sep: "c \<notin> set s \<Longrightarrow> split_on c s = [s]"
  by (induction s) auto

lemma split_on_append: "c \<notin> set a \<Longrightarrow> split_on c (a @ c # b) = a # split_on c b"
  by (induction a) auto

lemma split_on_single: "split_on c s = [p] \<Longrightarrow> s = p \<and> c \<notin> set s"
proof (induction s arbitrary: p)
  case Nil
  then show ?case by simp
next
  case (Cons x xs)
  show ?case
  proof (cases "x = c")
    case True
    with Cons.prems show ?thesis by (simp add: split_on_nonempty)
  next
    case False
    with Cons.prems obtain q where q: "split_on c xs = [q]" "p = x # q"
      by (auto simp: split_on_nonempty split: list.splits)
    with Cons.IH [of q] False show ?thesis by auto
  qed
qed

lemma split_on_two:
  "split_on c s = [a, b] \<longleftrightarrow> s = a @ c # b \<and> c \<notin> set a \<and> c \<notin> set b"
proof
  show "split_on c s = [a, b] \<Longrightarrow> s = a @ c # b \<and> c \<notin> set a \<and> c \<notin> set b"
  proof (induction s arbitrary: a)
    case Nil
    then show ?case by simp
  next
    case (Cons x xs)
    show ?case
    proof (cases "x = c")
      case True
      with Cons.prems have a: "a = []" and b: "split_on c xs = [b]" by auto
      from split_on_single [OF b] have "xs = b" "c \<notin> set xs" by blast+
      with True a show ?thesis by simp
    next
      case False
      with Cons.prems obtain q where q: "split_on c xs = [q, b]" "a = x # q"
        by (auto simp: split_on_nonempty split: list.splits)
      with Cons.IH [of q] False show ?thesis by simp
    qed
  qed
next
  show "s = a @ c # b \<and> c \<notin> set a \<and> c \<notin> set b \<Longrightarrow> split_on c s = [a, b]"
    by (simp add: split_on_append split_on_no_sep)
qed

lemma length_two: "length xs = 2 \<longleftrightarrow> (\<exists>a b. xs = [a, b])"
  by (cases xs; cases "tl xs") auto

lemma extract_accepts:
  "extractTokenFromHeader h = Inr t \<longleftrightarrow> h = Some (''Bearer '' @ t) \<and> CHR '' '' \<notin> set t"
proof (cases h)
  case None
  then show ?thesis by (simp add: extractTokenFromHeader_def)
next
  case (Some s)
  have "extractTokenFromHeader (Some s) = Inr t \<longleftrightarrow> split_on CHR '' '' s = [''Bearer'', t]"
    by (auto simp: extractTokenFromHeader_def Let_def length_two)
  also have "\<dots> \<longleftrightarrow> s = ''Bearer '' @ t \<and> CHR '' '' \<notin> set t"
    by (simp add: split_on_two)
  finally show ?thesis using Some by simp
qed

subsection \<open>Reading the bearer token\<close>

text \<open>
  Claim C5, as the code has it.  \<open>extractTokenFromHeader\<close> returns a token exactly for a
  header that is \<open>Bearer\<close>, one space, and a token without a space character; the token
  is returned as it stands and may be empty.  A missing or empty header fails with
  "Authorization header is required", every other header with "Invalid authorization
  header format".
\<close>

theorem extractTokenFromHeader_exact_form:
  "(extractTokenFromHeader h = Inr t \<longleftrightarrow> h = Some (''Bearer '' @ t) \<and> CHR '' '' \<notin> set t)
   \<and> (extractTokenFromHeader h = Inl (JsError ''Error'' ''Authorization header is required'')
        \<longleftrightarrow> h = None \<or> h = Some [])
   \<and> (extractTokenFromHeader h = Inl (JsError ''Error'' ''Invalid authorization header format'')
        \<longleftrightarrow> (\<exists>s. h = Some s \<and> s \<noteq> []
                  \<and> \<not> (\<exists>t'. s = ''Bearer '' @ t' \<and> CHR '' '' \<notin> set t')))"
proof (intro conjI)
  show "extractTokenFromHeader h = Inr t \<longleftrightarrow> h = Some (''Bearer '' @ t) \<and> CHR '' '' \<notin> set t"
    by (rule extract_accepts)
  show "extractTokenFromHeader h = Inl (JsError ''Error'' ''Authorization header is required'')
        \<longleftrightarrow> h = None \<or> h = Some []"
    by (auto simp: extractTokenFromHeader_def Let_def split: option.splits)
  show "extractTokenFromHeader h = Inl (JsError ''Error'' ''Invalid authorization header format'')
        \<longleftrightarrow> (\<exists>s. h = Some s \<and> s \<noteq> []
                  \<and> \<not> (\<exists>t'. s = ''Bearer '' @ t' \<and> CHR '' '' \<notin> set t'))"
  proof (cases h)
    case None
    then show ?thesis by (simp add: extractTokenFromHeader_def)
  next
    case (Some s)
    have "extractTokenFromHeader (Some s)
            = Inl (JsError ''Error'' ''Invalid authorization header format'')
          \<longleftrightarrow> s \<noteq> [] \<and> \<not> (\<exists>t'. extractTokenFromHeader (Some s) = Inr t')"
      by (auto simp: extractTokenFromHeader_def Let_def)
    then show ?thesis using Some by (simp add: extract_accepts)
  qed
qed

text \<open>
  The theorem at a well-formed header, a header with another scheme, a header with a third
  segment and a missing header.
\<close>

theorem extractTokenFromHeader_exact_form_witness:
  "extractTokenFromHeader (Some ''Bearer abc.def.ghi'') = Inr ''abc.def.ghi''
   \<and> extractTokenFromHeader (Some ''Basic token'')
       = Inl (JsError ''Error'' ''Invalid authorization header format'')
   \<and> extractTokenFromHeader (Some ''Bearer a b'')
       = Inl (JsError ''Error'' ''Invalid authorization header format'')
   \<and> extractTokenFromHeader None = Inl (JsError ''Error'' ''Authorization header is required'')"
  using extractTokenFromHeader_exact_form [of "Some ''Bearer abc.def.ghi''" "''abc.def.ghi''"]
    extractTokenFromHeader_exact_form [of "Some ''Basic token''" "[]"]
    extractTokenFromHeader_exact_form [of "Some ''Bearer a b''" "[]"]
    extractTokenFromHeader_exact_form [of None "[]"]
  by simp

text \<open>
  Claim C5 as stated has the extraction fail for an empty token string.  The header
  \<open>Bearer\<close> followed by one space splits into two parts, the second one empty, and the
  extraction returns the empty token.
\<close>

theorem extractTokenFromHeader_empty_token_counterexample:
  "extractTokenFromHeader (Some ''Bearer '') = Inr []"
  by (simp add: extractTokenFromHeader_def)

subsection \<open>Issuing and verifying\<close>

lemma jwt_verify_own_token:
  assumes "key \<noteq> []" and "decodes enc dec (jwt_token key (jwt_claims now ident life i a))"
    and "now' < now + life"
  shows "jwt_verify dec now' (enc (jwt_token key (jwt_claims now ident life i a))) key i a
         = Inr (jwt_claims now ident life i a)"
  using assms by (simp add: jwt_verify_def decodes_def jwt_token_def jwt_claims_def)

lemma jwt_verify_other_key:
  assumes "key \<noteq> key'" and "decodes enc dec (jwt_token key claims)"
  shows "\<exists>e. jwt_verify dec now' (enc (jwt_token key claims)) key' i a = Inl e"
  using assms by (simp add: jwt_verify_def decodes_def jwt_token_def)

lemma demo_decodes_access: "decodes demo_enc demo_dec (access_jws demo_config 1000 demo_identity)"
  by (simp add: decodes_def demo_enc_def demo_dec_def)

lemma demo_decodes_refresh:
  "decodes demo_enc demo_dec (refresh_jws demo_config 1000 demo_identity)"
  by (simp add: decodes_def demo_enc_def demo_dec_def access_jws_def refresh_jws_def
      jwt_token_def demo_config_def)

text \<open>
  Claim C1.  With non-empty secrets and a serialisation that reads the issued tokens back,
  a token from \<open>generateToken\<close> verified by \<open>verifyToken\<close> before it expires yields a
  payload with the \<open>userId\<close> and \<open>email\<close> of the identity it was issued for, and
  likewise \<open>generateRefreshToken\<close> and \<open>verifyRefreshToken\<close> with the refresh secret.
\<close>

theorem token_roundtrip:
  assumes "secret cfg \<noteq> []" and "refreshSecret cfg \<noteq> []"
    and "decodes enc dec (access_jws cfg now ident)"
    and "decodes enc dec (refresh_jws cfg now ident)"
    and "now\<^sub>a < now + expiresIn cfg" and "now\<^sub>r < now + refreshExpiresIn cfg"
  shows "(\<exists>token payload. generateToken cfg enc now ident = Inr token
            \<and> verifyToken cfg dec now\<^sub>a token = Inr payload
            \<and> userId payload = userId ident \<and> email payload = email ident)
       \<and> (\<exists>token payload. generateRefreshToken cfg enc now ident = Inr token
            \<and> verifyRefreshToken cfg dec now\<^sub>r token = Inr payload
            \<and> userId payload = userId ident \<and> email payload = email ident)"
proof
  have "verifyToken cfg dec now\<^sub>a (enc (access_jws cfg now ident))
        = Inr (jwt_claims now ident (expiresIn cfg) (issuer cfg) (audience cfg))"
    using assms(1,3,5) jwt_verify_own_token [of "secret cfg" enc dec now ident "expiresIn cfg"]
    by (simp add: verifyToken_def access_jws_def)
  with assms(1) show "\<exists>token payload. generateToken cfg enc now ident = Inr token
            \<and> verifyToken cfg dec now\<^sub>a token = Inr payload
            \<and> userId payload = userId ident \<and> email payload = email ident"
    by (simp add: generateToken_def jwt_sign_def access_jws_def jwt_claims_def)
next
  have "verifyRefreshToken cfg dec now\<^sub>r (enc (refresh_jws cfg now ident))
        = Inr (jwt_claims now ident (refreshExpiresIn cfg) (issuer cfg) (audience cfg))"
    using assms(2,4,6)
      jwt_verify_own_token [of "refreshSecret cfg" enc dec now ident "refreshExpiresIn cfg"]
    by (simp add: verifyRefreshToken_def refresh_jws_def)
  with assms(2) show "\<exists>token payload. generateRefreshToken cfg enc now ident = Inr token
            \<and> verifyRefreshToken cfg dec now\<^sub>r token = Inr payload
            \<and> userId payload = userId ident \<and> email payload = email ident"
    by (simp add: generateRefreshToken_def jwt_sign_def refresh_jws_def jwt_claims_def)
qed

text \<open>
  The round trip for the example identity, verified 500 seconds after issue (access) and
  a day after issue (refresh).
\<close>

theorem token_roundtrip_witness:
  "secret demo_config \<noteq> [] \<and> refreshSecret demo_config \<noteq> []
   \<and> decodes demo_enc demo_dec (access_jws demo_config 1000 demo_identity)
   \<and> decodes demo_enc demo_dec (refresh_jws demo_config 1000 demo_identity)
   \<and> (1500::nat) < 1000 + expiresIn demo_config
   \<and> (90000::nat) < 1000 + refreshExpiresIn demo_config
   \<and> (\<exists>token payload. generateToken demo_config demo_enc 1000 demo_identity = Inr token
         \<and> verifyToken demo_config demo_dec 1500 token = Inr payload
         \<and> userId payload = userId demo_identity \<and> email payload = email demo_identity)
   \<and> (\<exists>token payload. generateRefreshToken demo_config demo_enc 1000 demo_identity = Inr token
         \<and> verifyRefreshToken demo_config demo_dec 90000 token = Inr payload
         \<and> userId payload = userId demo_identity \<and> email payload = email demo_identity)"
proof -
  have h1: "secret demo_config \<noteq> []" and h2: "refreshSecret demo_config \<noteq> []"
    by (simp_all add: demo_config_def)
  have h5: "(1500::nat) < 1000 + expiresIn demo_config"
    and h6: "(90000::nat) < 1000 + refreshExpiresIn demo_config"
    by (simp_all add: demo_config_def)
  from token_roundtrip [OF h1 h2 demo_decodes_access demo_decodes_refresh h5 h6]
  show ?thesis using h1 h2 h5 h6 demo_decodes_access demo_decodes_refresh by blast
qed

text \<open>
  Claim C4.  When the two secrets differ, a token issued by \<open>generateToken\<close> fails
  \<open>verifyRefreshToken\<close> and a token issued by \<open>generateRefreshToken\<close> fails
  \<open>verifyToken\<close>, at any time of verification.
\<close>

theorem secret_isolation:
  assumes "secret cfg \<noteq> []" and "refreshSecret cfg \<noteq> []"
    and "secret cfg \<noteq> refreshSecret cfg"
    and "decodes enc dec (access_jws cfg now ident)"
    and "decodes enc dec (refresh_jws cfg now ident)"
  shows "(\<exists>token. generateToken cfg enc now ident = Inr token
            \<and> verifyRefreshToken cfg dec now' token
                = Inl (JsError ''Error'' ''Invalid or expired refresh token''))
       \<and> (\<exists>token. generateRefreshToken cfg enc now ident = Inr token
            \<and> verifyToken cfg dec now' token
                = Inl (JsError ''Error'' ''Invalid or expired token''))"
proof
  from assms(3,4) obtain e where
    "jwt_verify dec now' (enc (access_jws cfg now ident)) (refreshSecret cfg) (issuer cfg)
       (audience cfg) = Inl e"
    unfolding access_jws_def using jwt_verify_other_key by blast
  with assms(1) show "\<exists>token. generateToken cfg enc now ident = Inr token
            \<and> verifyRefreshToken cfg dec now' token
                = Inl (JsError ''Error'' ''Invalid or expired refresh token'')"
    by (simp add: generateToken_def jwt_sign_def access_jws_def verifyRefreshToken_def)
next
  from assms(3,5) obtain e where
    "jwt_verify dec now' (enc (refresh_jws cfg now ident)) (secret cfg) (issuer cfg)
       (audience cfg) = Inl e"
    unfolding refresh_jws_def using jwt_verify_other_key [of "refreshSecret cfg" "secret cfg"]
    by metis
  with assms(2) show "\<exists>token. generateRefreshToken cfg enc now ident = Inr token
            \<and> verifyToken cfg dec now' token
                = Inl (JsError ''Error'' ''Invalid or expired token'')"
    by (simp add: generateRefreshToken_def jwt_sign_def refresh_jws_def verifyToken_def)
qed

text \<open>The isolation for the example configuration, one second after issue.\<close>

theorem secret_isolation_witness:
  "secret demo_config \<noteq> [] \<and> refreshSecret demo_config \<noteq> []
   \<and> secret demo_config \<noteq> refreshSecret demo_config
   \<and> decodes demo_enc demo_dec (access_jws demo_config 1000 demo_identity)
   \<and> decodes demo_enc demo_dec (refresh_jws demo_config 1000 demo_identity)
   \<and> (\<exists>token. generateToken demo_config demo_enc 1000 demo_identity = Inr token
         \<and> verifyRefreshToken demo_config demo_dec 1001 token
             = Inl (JsError ''Error'' ''Invalid or expired refresh token''))
   \<and> (\<exists>token. generateRefreshToken demo_config demo_enc 1000 demo_identity = Inr token
         \<and> verifyToken demo_config demo_dec 1001 token
             = Inl (JsError ''Error'' ''Invalid or expired token''))"
proof -
  have h1: "secret demo_config \<noteq> []" and h2: "refreshSecret demo_config \<noteq> []"
    and h3: "secret demo_config \<noteq> refreshSecret demo_config"
    by (simp_all add: demo_config_def)
  from secret_isolation [OF h1 h2 h3 demo_decodes_access demo_decodes_refresh, of 1001]
  show ?thesis using h1 h2 h3 demo_decodes_access demo_decodes_refresh by blast
qed

section \<open>Properties of the authentication middleware\<close>

lemma verifyToken_failure:
  "verifyToken cfg dec now token = Inl e \<Longrightarrow> e = JsError ''Error'' ''Invalid or expired token''"
  by (auto simp: verifyToken_def split: sum.splits)

lemma verifyToken_fails_iff:
  "verifyToken cfg dec now token = Inl (JsError ''Error'' ''Invalid or expired token'')
   \<longleftrightarrow> (\<exists>e. jwt_verify dec now token (secret cfg) (issuer cfg) (audience cfg) = Inl e)"
  by (auto simp: verifyToken_def split: sum.splits)

lemma jwt_verify_expired:
  "dec token = Some t \<Longrightarrow> exp (jws_payload t) = Some e \<Longrightarrow> e \<le> now
   \<Longrightarrow> \<exists>err. jwt_verify dec now token key i a = Inl err"
  by (simp add: jwt_verify_def)

lemma jwt_verify_forged:
  "dec token = Some t \<Longrightarrow> jws_sig t \<noteq> Hmac (jws_alg t) key (jws_alg t) (jws_payload t)
   \<Longrightarrow> \<exists>err. jwt_verify dec now token key i a = Inl err"
  by (simp add: jwt_verify_def)

lemma jwt_verify_malformed:
  "dec token = None \<Longrightarrow> \<exists>err. jwt_verify dec now token key i a = Inl err"
  by (simp add: jwt_verify_def)

lemma jwt_verify_foreign:
  "dec token = Some t
   \<Longrightarrow> i \<noteq> [] \<and> iss (jws_payload t) \<noteq> Some i \<or> a \<noteq> [] \<and> aud (jws_payload t) \<noteq> Some a
   \<Longrightarrow> \<exists>err. jwt_verify dec now token key i a = Inl err"
  by (auto simp: jwt_verify_def)

lemma authenticateToken_cases:
  "authenticateToken ts now cfg dec req
     = (case extractTokenFromHeader (authorization req) of
          Inl e \<Rightarrow> NextErr (AppErr (AuthError ts ''Authentication failed'' None None))
        | Inr token \<Rightarrow>
            (case verifyToken cfg dec now token of
               Inl e \<Rightarrow> NextErr (AppErr (AuthError ts ''Authentication failed'' None None))
             | Inr payload \<Rightarrow> Next (req\<lparr>user := Some payload\<rparr>)))"
  by (simp add: authenticateToken_def)

lemma authenticateToken_rejects_iff:
  "authenticateToken ts now cfg dec req
     = NextErr (AppErr (AuthError ts ''Authentication failed'' None None))
   \<longleftrightarrow> \<not> (\<exists>token payload. extractTokenFromHeader (authorization req) = Inr token
                \<and> verifyToken cfg dec now token = Inr payload)"
  by (auto simp: authenticateToken_def split: sum.splits)

lemma authenticateToken_total:
  "authenticateToken ts now cfg dec req
     = NextErr (AppErr (AuthError ts ''Authentication failed'' None None))
   \<or> (\<exists>payload. authenticateToken ts now cfg dec req = Next (req\<lparr>user := Some payload\<rparr>))"
  by (auto simp: authenticateToken_def split: sum.splits)

lemma AuthError_fields:
  "statusCode (AuthError ts msg None None) = 401 \<and> message (AuthError ts msg None None) = msg
   \<and> isOperational (AuthError ts msg None None) \<and> name (AuthError ts msg None None) = ''AuthError''"
  by (simp add: AuthError_def AppError_def)

lemma globalErrorHandler_AppErr:
  "globalErrorHandler env ts' (AppErr e) req
     = \<lparr>res_status = statusCode e, res_success = False, res_message = message e,
        res_statusCode = statusCode e, res_timestamp = timestamp e,
        res_path = (if path e = None then Some (req_path req) else path e),
        res_method = (if method e = None then Some (req_method req) else method e),
        res_details = details e\<rparr>"
  by (simp add: globalErrorHandler_def toAppError_def Let_def)

lemma demo_dec_simps:
  "demo_dec ''a.a.a'' = Some (access_jws demo_config 1000 demo_identity)"
  "demo_dec ''r.r.r'' = Some (refresh_jws demo_config 1000 demo_identity)"
  "demo_dec ''garbage'' = None"
  "demo_dec ''f.f.f''
     = Some (jwt_token ''test-secret''
               (jwt_claims 1000 demo_identity 3600 ''other-issuer'' ''test-audience''))"
  by (simp_all add: demo_dec_def)

text \<open>
  Claim C3.  A token whose \<open>exp\<close> has passed, a token with a forged signature, a
  string that is no token and a token of another issuer or audience all fail
  \<open>verifyToken\<close> with the same error, and so does every other failure.
  \<open>authenticateToken\<close> either attaches the payload and proceeds, or, whenever the header
  or the token fails in any way, calls \<open>next\<close> with the one error "Authentication failed"
  of status 401.  Two rejected requests to the same path and method, handled at the same
  time, get equal responses.
\<close>

theorem authentication_failure_uniform:
  "(dec expired = Some t1 \<and> exp (jws_payload t1) = Some e \<and> e \<le> now \<longrightarrow>
      verifyToken cfg dec now expired = Inl (JsError ''Error'' ''Invalid or expired token''))
   \<and> (dec forged = Some t2
        \<and> jws_sig t2 \<noteq> Hmac (jws_alg t2) (secret cfg) (jws_alg t2) (jws_payload t2) \<longrightarrow>
      verifyToken cfg dec now forged = Inl (JsError ''Error'' ''Invalid or expired token''))
   \<and> (dec malformed = None \<longrightarrow>
      verifyToken cfg dec now malformed = Inl (JsError ''Error'' ''Invalid or expired token''))
   \<and> (dec foreign = Some t3
        \<and> (issuer cfg \<noteq> [] \<and> iss (jws_payload t3) \<noteq> Some (issuer cfg)
           \<or> audience cfg \<noteq> [] \<and> aud (jws_payload t3) \<noteq> Some (audience cfg)) \<longrightarrow>
      verifyToken cfg dec now foreign = Inl (JsError ''Error'' ''Invalid or expired token''))
   \<and> (\<forall>err. verifyToken cfg dec now token = Inl err \<longrightarrow>
         err = JsError ''Error'' ''Invalid or expired token'')
   \<and> (authenticateToken ts now cfg dec req
         = NextErr (AppErr (AuthError ts ''Authentication failed'' None None))
       \<longleftrightarrow> \<not> (\<exists>token payload. extractTokenFromHeader (authorization req) = Inr token
                    \<and> verifyToken cfg dec now token = Inr payload))
   \<and> (authenticateToken ts now cfg dec req
         = NextErr (AppErr (AuthError ts ''Authentication failed'' None None))
       \<or> (\<exists>payload. authenticateToken ts now cfg dec req = Next (req\<lparr>user := Some payload\<rparr>)))
   \<and> statusCode (AuthError ts ''Authentication failed'' None None) = 401
   \<and> message (AuthError ts ''Authentication failed'' None None) = ''Authentication failed''
   \<and> (authenticateToken ts now cfg dec req = NextErr x
        \<and> authenticateToken ts now' cfg' dec' req' = NextErr x'
        \<and> req_path req = req_path req' \<and> req_method req = req_method req' \<longrightarrow>
      x = x' \<and> globalErrorHandler env ts' x req = globalErrorHandler env ts' x' req'
      \<and> res_status (globalErrorHandler env ts' x req) = 401)"
proof (intro conjI)
  show "dec expired = Some t1 \<and> exp (jws_payload t1) = Some e \<and> e \<le> now \<longrightarrow>
      verifyToken cfg dec now expired = Inl (JsError ''Error'' ''Invalid or expired token'')"
    using jwt_verify_expired [of dec expired t1 e now] by (simp add: verifyToken_fails_iff)
  show "dec forged = Some t2
        \<and> jws_sig t2 \<noteq> Hmac (jws_alg t2) (secret cfg) (jws_alg t2) (jws_payload t2) \<longrightarrow>
      verifyToken cfg dec now forged = Inl (JsError ''Error'' ''Invalid or expired token'')"
    using jwt_verify_forged [of dec forged t2 "secret cfg"] by (simp add: verifyToken_fails_iff)
  show "dec malformed = None \<longrightarrow>
      verifyToken cfg dec now malformed = Inl (JsError ''Error'' ''Invalid or expired token'')"
    using jwt_verify_malformed [of dec malformed] by (simp add: verifyToken_fails_iff)
  show "dec foreign = Some t3
        \<and> (issuer cfg \<noteq> [] \<and> iss (jws_payload t3) \<noteq> Some (issuer cfg)
           \<or> audience cfg \<noteq> [] \<and> aud (jws_payload t3) \<noteq> Some (audience cfg)) \<longrightarrow>
      verifyToken cfg dec now foreign = Inl (JsError ''Error'' ''Invalid or expired token'')"
    using jwt_verify_foreign [of dec foreign t3 "issuer cfg" "audience cfg"]
    by (simp add: verifyToken_fails_iff)
  show "\<forall>err. verifyToken cfg dec now token = Inl err \<longrightarrow>
         err = JsError ''Error'' ''Invalid or expired token''"
    using verifyToken_failure by blast
  show "authenticateToken ts now cfg dec req
         = NextErr (AppErr (AuthError ts ''Authentication failed'' None None))
       \<longleftrightarrow> \<not> (\<exists>token payload. extractTokenFromHeader (authorization req) = Inr token
                    \<and> verifyToken cfg dec now token = Inr payload)"
    by (rule authenticateToken_rejects_iff)
  show "authenticateToken ts now cfg dec req
         = NextErr (AppErr (AuthError ts ''Authentication failed'' None None))
       \<or> (\<exists>payload. authenticateToken ts now cfg dec req = Next (req\<lparr>user := Some payload\<rparr>))"
    by (rule authenticateToken_total)
  show "statusCode (AuthError ts ''Authentication failed'' None None) = 401"
    and "message (AuthError ts ''Authentication failed'' None None) = ''Authentication failed''"
    by (simp_all add: AuthError_fields)
  show "authenticateToken ts now cfg dec req = NextErr x
        \<and> authenticateToken ts now' cfg' dec' req' = NextErr x'
        \<and> req_path req = req_path req' \<and> req_method req = req_method req' \<longrightarrow>
      x = x' \<and> globalErrorHandler env ts' x req = globalErrorHandler env ts' x' req'
      \<and> res_status (globalErrorHandler env ts' x req) = 401"
  proof (intro impI, elim conjE)
    assume a: "authenticateToken ts now cfg dec req = NextErr x"
      and b: "authenticateToken ts now' cfg' dec' req' = NextErr x'"
      and p: "req_path req = req_path req'" and m: "req_method req = req_method req'"
    from a authenticateToken_total [of ts now cfg dec req]
    have x: "x = AppErr (AuthError ts ''Authentication failed'' None None)" by auto
    from b authenticateToken_total [of ts now' cfg' dec' req']
    have x': "x' = AppErr (AuthError ts ''Authentication failed'' None None)" by auto
    show "x = x' \<and> globalErrorHandler env ts' x req = globalErrorHandler env ts' x' req'
      \<and> res_status (globalErrorHandler env ts' x req) = 401"
      using x x' p m by (simp add: globalErrorHandler_AppErr AuthError_fields)
  qed
qed

text \<open>
  The theorem at an expired token, a token signed with the other secret, a string that
  does not decode and a token of another issuer, and at a request without a header and
  one with the expired token.
\<close>

theorem authentication_failure_uniform_witness:
  "demo_dec ''a.a.a'' = Some (access_jws demo_config 1000 demo_identity)
   \<and> exp (jws_payload (access_jws demo_config 1000 demo_identity)) = Some 4600
   \<and> (4600::nat) \<le> 5000
   \<and> verifyToken demo_config demo_dec 5000 ''a.a.a''
       = Inl (JsError ''Error'' ''Invalid or expired token'')
   \<and> demo_dec ''r.r.r'' = Some (refresh_jws demo_config 1000 demo_identity)
   \<and> jws_sig (refresh_jws demo_config 1000 demo_identity)
       \<noteq> Hmac (jws_alg (refresh_jws demo_config 1000 demo_identity)) (secret demo_config)
           (jws_alg (refresh_jws demo_config 1000 demo_identity))
           (jws_payload (refresh_jws demo_config 1000 demo_identity))
   \<and> verifyToken demo_config demo_dec 5000 ''r.r.r''
       = Inl (JsError ''Error'' ''Invalid or expired token'')
   \<and> demo_dec ''garbage'' = None
   \<and> verifyToken demo_config demo_dec 5000 ''garbage''
       = Inl (JsError ''Error'' ''Invalid or expired token'')
   \<and> issuer demo_config \<noteq> []
   \<and> iss (jws_payload (jwt_token ''test-secret''
               (jwt_claims 1000 demo_identity 3600 ''other-issuer'' ''test-audience'')))
       \<noteq> Some (issuer demo_config)
   \<and> verifyToken demo_config demo_dec 5000 ''f.f.f''
       = Inl (JsError ''Error'' ''Invalid or expired token'')
   \<and> authenticateToken ''T'' 5000 demo_config demo_dec (demo_request None)
       = NextErr (AppErr (AuthError ''T'' ''Authentication failed'' None None))
   \<and> authenticateToken ''T'' 5000 demo_config demo_dec (demo_request (Some ''Bearer a.a.a''))
       = NextErr (AppErr (AuthError ''T'' ''Authentication failed'' None None))
   \<and> globalErrorHandler None ''U'' (AppErr (AuthError ''T'' ''Authentication failed'' None None))
         (demo_request None)
       = globalErrorHandler None ''U''
           (AppErr (AuthError ''T'' ''Authentication failed'' None None))
           (demo_request (Some ''Bearer a.a.a''))
   \<and> res_status (globalErrorHandler None ''U''
         (AppErr (AuthError ''T'' ''Authentication failed'' None None)) (demo_request None)) = 401"
proof -
  let ?A = "access_jws demo_config 1000 demo_identity"
  let ?R = "refresh_jws demo_config 1000 demo_identity"
  let ?F = "jwt_token ''test-secret''
              (jwt_claims 1000 demo_identity 3600 ''other-issuer'' ''test-audience'')"
  let ?rej = "NextErr (AppErr (AuthError ''T'' ''Authentication failed'' None None))"
  have e: "exp (jws_payload ?A) = Some 4600"
    by (simp add: access_jws_def jwt_token_def jwt_claims_def demo_config_def)
  have f: "jws_sig ?R \<noteq> Hmac (jws_alg ?R) (secret demo_config) (jws_alg ?R) (jws_payload ?R)"
    by (simp add: refresh_jws_def jwt_token_def demo_config_def)
  have i: "issuer demo_config \<noteq> []" "iss (jws_payload ?F) \<noteq> Some (issuer demo_config)"
    by (simp_all add: jwt_token_def jwt_claims_def demo_config_def)
  have r1: "authenticateToken ''T'' 5000 demo_config demo_dec (demo_request None) = ?rej"
    by (simp add: authenticateToken_def extractTokenFromHeader_def demo_request_def)
  have p: "req_path (demo_request None) = req_path (demo_request (Some ''Bearer a.a.a''))"
    "req_method (demo_request None) = req_method (demo_request (Some ''Bearer a.a.a''))"
    by (simp_all add: demo_request_def)
  note u = authentication_failure_uniform [where dec = demo_dec and cfg = demo_config
      and now = 5000 and expired = "''a.a.a''" and ?t1.0 = ?A and e = 4600
      and forged = "''r.r.r''" and ?t2.0 = ?R and malformed = "''garbage''"
      and foreign = "''f.f.f''" and ?t3.0 = ?F and ts = "''T''"
      and req' = "demo_request (Some ''Bearer a.a.a'')" and req = "demo_request None"
      and now' = 5000 and cfg' = demo_config and dec' = demo_dec and x' = "AppErr (AuthError ''T'' ''Authentication failed'' None None)"
      and x = "AppErr (AuthError ''T'' ''Authentication failed'' None None)"
      and env = None and ts' = "''U''" and token = "''garbage''"]
  have le: "(4600::nat) \<le> 5000" by simp
  have c1: "verifyToken demo_config demo_dec 5000 ''a.a.a''
             = Inl (JsError ''Error'' ''Invalid or expired token'')"
    using u e le demo_dec_simps(1) by blast
  have c2: "verifyToken demo_config demo_dec 5000 ''r.r.r''
             = Inl (JsError ''Error'' ''Invalid or expired token'')"
    using u f demo_dec_simps(2) by blast
  have c3: "verifyToken demo_config demo_dec 5000 ''garbage''
             = Inl (JsError ''Error'' ''Invalid or expired token'')"
    using u demo_dec_simps(3) by blast
  have c4: "verifyToken demo_config demo_dec 5000 ''f.f.f''
             = Inl (JsError ''Error'' ''Invalid or expired token'')"
    using u i demo_dec_simps(4) by blast
  have r2: "authenticateToken ''T'' 5000 demo_config demo_dec
              (demo_request (Some ''Bearer a.a.a'')) = ?rej"
    using c1 by (simp add: authenticateToken_def extractTokenFromHeader_def demo_request_def)
  have c5: "globalErrorHandler None ''U''
              (AppErr (AuthError ''T'' ''Authentication failed'' None None)) (demo_request None)
            = globalErrorHandler None ''U''
                (AppErr (AuthError ''T'' ''Authentication failed'' None None))
                (demo_request (Some ''Bearer a.a.a''))
          \<and> res_status (globalErrorHandler None ''U''
                (AppErr (AuthError ''T'' ''Authentication failed'' None None))
                (demo_request None)) = 401"
    using u r1 r2 p by blast
  show ?thesis
    using e f i le r1 r2 c1 c2 c3 c4 c5 demo_dec_simps by blast
qed

section \<open>Properties of the ownership check\<close>

lemma requireOwnership_path:
  assumes "user req = Some u" and "truthy (js_get (params req) k)"
  shows "requireOwnership ts k req
         = (if js_get (params req) k = JStr (userId u) then Next req
            else NextErr (AppErr (AuthError ts
                   ''Access denied: You can only access your own resources'' None None)))"
  using assms by (auto simp: requireOwnership_def Let_def)

lemma requireOwnership_body:
  assumes "user req = Some u" and "\<not> truthy (js_get (params req) k)" and "body req = Some b"
  shows "requireOwnership ts k req
         = (if js_get b k = JStr (userId u) then Next req
            else NextErr (AppErr (AuthError ts
                   ''Access denied: You can only access your own resources'' None None)))"
  using assms by (auto simp: requireOwnership_def Let_def)

lemma requireOwnership_no_body:
  assumes "user req = Some u" and "\<not> truthy (js_get (params req) k)" and "body req = None"
  shows "requireOwnership ts k req
         = Throws (JsError ''TypeError'' ''Cannot read properties of undefined'')"
  using assms by (simp add: requireOwnership_def Let_def)

lemma js_get_own: "obj k = Some v \<Longrightarrow> js_get obj k = v"
  by (simp add: js_get_def)

lemma js_get_missing: "obj k = None \<Longrightarrow> js_get obj k = JObj \<or> js_get obj k = JUndefined"
  by (simp add: js_get_def)

lemma js_get_missing_plain:
  "obj k = None \<Longrightarrow> k \<notin> set object_prototype_keys \<Longrightarrow> js_get obj k = JUndefined"
  by (simp add: js_get_def)

lemma demo_owner_user:
  "user (demo_owner_request ps b)
     = Some (jwt_claims 1000 demo_identity 3600 ''test-issuer'' ''test-audience'')"
  "params (demo_owner_request ps b) = ps" "body (demo_owner_request ps b) = b"
  by (simp_all add: demo_owner_request_def)

lemma demo_userId:
  "userId (jwt_claims 1000 demo_identity 3600 ''test-issuer'' ''test-audience'')
     = ''507f1f77bcf86cd799439011''"
  by (simp add: jwt_claims_def demo_identity_def)

text \<open>
  Claim C2, as the code has it.  For an authenticated request whose path supplies an id
  other than the user's, whatever the body holds, and for one whose path supplies none
  and whose body supplies another value, \<open>requireOwnership\<close> calls \<open>next\<close> with an
  \<open>AuthError\<close> of message "Access denied: You can only access your own resources";
  the error and the response carry status 401.
\<close>

theorem requireOwnership_mismatch:
  assumes "user req = Some u"
    and "params req k = Some (JStr pid) \<and> pid \<noteq> [] \<and> pid \<noteq> userId u
         \<or> (params req k = Some (JStr []) \<or> params req k = None \<and> k \<notin> set object_prototype_keys)
           \<and> body req = Some b \<and> b k = Some bid \<and> bid \<noteq> JStr (userId u)"
  shows "requireOwnership ts k req
           = NextErr (AppErr (AuthError ts
               ''Access denied: You can only access your own resources'' None None))
       \<and> statusCode (AuthError ts
               ''Access denied: You can only access your own resources'' None None) = 401
       \<and> res_status (globalErrorHandler env ts' (AppErr (AuthError ts
               ''Access denied: You can only access your own resources'' None None)) req) = 401
       \<and> res_message (globalErrorHandler env ts' (AppErr (AuthError ts
               ''Access denied: You can only access your own resources'' None None)) req)
           = ''Access denied: You can only access your own resources''"
proof -
  let ?denied = "NextErr (AppErr (AuthError ts
               ''Access denied: You can only access your own resources'' None None))"
  from assms(2) have "requireOwnership ts k req = ?denied"
  proof (elim disjE conjE)
    assume p: "params req k = Some (JStr pid)" "pid \<noteq> []" "pid \<noteq> userId u"
    then have "truthy (js_get (params req) k)" "js_get (params req) k \<noteq> JStr (userId u)"
      by (simp_all add: js_get_own)
    with requireOwnership_path [OF assms(1)] show ?thesis by simp
  next
    assume p: "params req k = Some (JStr [])"
      and b: "body req = Some b" "b k = Some bid" "bid \<noteq> JStr (userId u)"
    from p have "\<not> truthy (js_get (params req) k)" by (simp add: js_get_own)
    from requireOwnership_body [OF assms(1) this b(1)] b show ?thesis
      by (simp add: js_get_own)
  next
    assume p: "params req k = None" "k \<notin> set object_prototype_keys"
      and b: "body req = Some b" "b k = Some bid" "bid \<noteq> JStr (userId u)"
    from p have "\<not> truthy (js_get (params req) k)" by (simp add: js_get_missing_plain)
    from requireOwnership_body [OF assms(1) this b(1)] b show ?thesis
      by (simp add: js_get_own)
  qed
  then show ?thesis
    by (simp add: AuthError_fields globalErrorHandler_AppErr)
qed

text \<open>The theorem at a request of the example user for the path id of another user.\<close>

theorem requireOwnership_mismatch_witness:
  "user (demo_owner_request [''userId'' \<mapsto> JStr ''507f1f77bcf86cd799439012''] None)
     = Some (jwt_claims 1000 demo_identity 3600 ''test-issuer'' ''test-audience'')
   \<and> params (demo_owner_request [''userId'' \<mapsto> JStr ''507f1f77bcf86cd799439012''] None)
         ''userId'' = Some (JStr ''507f1f77bcf86cd799439012'')
   \<and> ''507f1f77bcf86cd799439012'' \<noteq> []
   \<and> ''507f1f77bcf86cd799439012''
       \<noteq> userId (jwt_claims 1000 demo_identity 3600 ''test-issuer'' ''test-audience'')
   \<and> requireOwnership ''T'' ''userId''
         (demo_owner_request [''userId'' \<mapsto> JStr ''507f1f77bcf86cd799439012''] None)
       = NextErr (AppErr (AuthError ''T''
           ''Access denied: You can only access your own resources'' None None))
   \<and> res_status (globalErrorHandler None ''U'' (AppErr (AuthError ''T''
           ''Access denied: You can only access your own resources'' None None))
         (demo_owner_request [''userId'' \<mapsto> JStr ''507f1f77bcf86cd799439012''] None)) = 401"
proof -
  let ?req = "demo_owner_request [''userId'' \<mapsto> JStr ''507f1f77bcf86cd799439012''] None"
  let ?u = "jwt_claims 1000 demo_identity 3600 ''test-issuer'' ''test-audience''"
  have u: "user ?req = Some ?u" by (rule demo_owner_user)
  have p: "params ?req ''userId'' = Some (JStr ''507f1f77bcf86cd799439012'')"
    by (simp add: demo_owner_user)
  have n: "''507f1f77bcf86cd799439012'' \<noteq> []"
    "''507f1f77bcf86cd799439012'' \<noteq> userId ?u"
    by (simp_all add: demo_userId)
  from p n have h: "params ?req ''userId'' = Some (JStr ''507f1f77bcf86cd799439012'')
         \<and> ''507f1f77bcf86cd799439012'' \<noteq> [] \<and> ''507f1f77bcf86cd799439012'' \<noteq> userId ?u
         \<or> (params ?req ''userId'' = Some (JStr [])
              \<or> params ?req ''userId'' = None \<and> ''userId'' \<notin> set object_prototype_keys)
           \<and> body ?req = Some Map.empty \<and> Map.empty ''userId'' = Some JNull
           \<and> JNull \<noteq> JStr (userId ?u)"
    by blast
  from requireOwnership_mismatch [OF u h, of "''T''" None "''U''"] u p n
  show ?thesis by blast
qed

text \<open>
  Claim C2 as stated has the error carry status 403.  The error constructed on a mismatch
  is an \<open>AuthError\<close>, whose status is 401.
\<close>

theorem requireOwnership_status_counterexample:
  "requireOwnership ''T'' ''userId''
     (demo_owner_request [''userId'' \<mapsto> JStr ''507f1f77bcf86cd799439012''] None)
     = NextErr (AppErr (AuthError ''T''
         ''Access denied: You can only access your own resources'' None None))
   \<and> statusCode (AuthError ''T''
         ''Access denied: You can only access your own resources'' None None) = 401
   \<and> statusCode (AuthError ''T''
         ''Access denied: You can only access your own resources'' None None) \<noteq> 403"
  by (simp add: requireOwnership_def demo_owner_request_def js_get_def jwt_claims_def
      demo_identity_def AuthError_fields)

text \<open>
  Claim C10.  For an authenticated request, a non-empty id in the path decides alone:
  the check proceeds exactly when it equals the user's id.  Without one, the body
  decides: the check proceeds exactly when the body holds the user's id, as a string,
  under the key.  When neither the path nor the body has the key, the check never
  proceeds.  When it proceeds, the request is unchanged.
\<close>

theorem requireOwnership_grants_iff:
  assumes "user req = Some u"
  shows "(params req k = Some (JStr pid) \<and> pid \<noteq> [] \<longrightarrow>
           (requireOwnership ts k req = Next req \<longleftrightarrow> pid = userId u))
       \<and> ((params req k = Some (JStr []) \<or> params req k = None \<and> k \<notin> set object_prototype_keys)
            \<and> body req = Some b \<longrightarrow>
           (requireOwnership ts k req = Next req \<longleftrightarrow> b k = Some (JStr (userId u))))
       \<and> (params req k = None \<and> (body req = None \<or> (\<exists>b'. body req = Some b' \<and> b' k = None)) \<longrightarrow>
           (\<forall>r. requireOwnership ts k req \<noteq> Next r))
       \<and> (\<forall>r. requireOwnership ts k req = Next r \<longrightarrow> r = req)"
proof (intro conjI impI)
  assume "params req k = Some (JStr pid) \<and> pid \<noteq> []"
  then have "truthy (js_get (params req) k)" "js_get (params req) k = JStr pid"
    by (simp_all add: js_get_own)
  with requireOwnership_path [OF assms this(1), of ts]
  show "requireOwnership ts k req = Next req \<longleftrightarrow> pid = userId u" by auto
next
  assume a: "(params req k = Some (JStr []) \<or> params req k = None \<and> k \<notin> set object_prototype_keys)
            \<and> body req = Some b"
  then have f: "\<not> truthy (js_get (params req) k)"
    by (auto simp: js_get_own js_get_missing_plain)
  have "js_get b k = JStr (userId u) \<longleftrightarrow> b k = Some (JStr (userId u))"
    by (auto simp: js_get_def split: option.splits)
  with requireOwnership_body [OF assms f, of b ts] a
  show "requireOwnership ts k req = Next req \<longleftrightarrow> b k = Some (JStr (userId u))" by auto
next
  assume a: "params req k = None \<and> (body req = None \<or> (\<exists>b'. body req = Some b' \<and> b' k = None))"
  show "\<forall>r. requireOwnership ts k req \<noteq> Next r"
  proof (cases "truthy (js_get (params req) k)")
    case True
    from a js_get_missing [of "params req" k] have "js_get (params req) k \<noteq> JStr (userId u)"
      by auto
    with requireOwnership_path [OF assms True, of ts] show ?thesis by simp
  next
    case False
    from a show ?thesis
    proof (elim conjE disjE exE)
      assume "body req = None"
      with requireOwnership_no_body [OF assms False, of ts] show ?thesis by simp
    next
      fix b' assume b': "body req = Some b'" "b' k = None"
      from b'(2) js_get_missing [of b' k] have "js_get b' k \<noteq> JStr (userId u)" by auto
      with requireOwnership_body [OF assms False b'(1), of ts] show ?thesis by simp
    qed
  qed
next
  show "\<forall>r. requireOwnership ts k req = Next r \<longrightarrow> r = req"
    using assms by (auto simp: requireOwnership_def Let_def split: option.splits if_splits)
qed

text \<open>
  The theorem at a matching path id, a matching body id, a body without the key and a
  request without a body.
\<close>

theorem requireOwnership_grants_iff_witness:
  "requireOwnership ''T'' ''userId''
     (demo_owner_request [''userId'' \<mapsto> JStr ''507f1f77bcf86cd799439011''] None)
     = Next (demo_owner_request [''userId'' \<mapsto> JStr ''507f1f77bcf86cd799439011''] None)
   \<and> requireOwnership ''T'' ''userId''
       (demo_owner_request Map.empty (Some [''userId'' \<mapsto> JStr ''507f1f77bcf86cd799439011'']))
     = Next (demo_owner_request Map.empty
               (Some [''userId'' \<mapsto> JStr ''507f1f77bcf86cd799439011'']))
   \<and> ''userId'' \<notin> set object_prototype_keys
   \<and> (\<forall>r. requireOwnership ''T'' ''userId'' (demo_owner_request Map.empty (Some Map.empty))
           \<noteq> Next r)
   \<and> (\<forall>r. requireOwnership ''T'' ''userId'' (demo_owner_request Map.empty None) \<noteq> Next r)"
proof -
  let ?u = "jwt_claims 1000 demo_identity 3600 ''test-issuer'' ''test-audience''"
  let ?id = "''507f1f77bcf86cd799439011''"
  let ?r1 = "demo_owner_request [''userId'' \<mapsto> JStr ?id] None"
  let ?r2 = "demo_owner_request Map.empty (Some [''userId'' \<mapsto> JStr ?id])"
  let ?r3 = "demo_owner_request Map.empty (Some Map.empty)"
  let ?r4 = "demo_owner_request Map.empty None"
  have k: "''userId'' \<notin> set object_prototype_keys"
    by (simp add: object_prototype_keys_def)
  have "params ?r1 ''userId'' = Some (JStr ?id) \<and> ?id \<noteq> []"
    by (simp add: demo_owner_user)
  with requireOwnership_grants_iff [where req = ?r1 and u = ?u and k = "''userId''" and pid = ?id
      and ts = "''T''"]
  have g1: "requireOwnership ''T'' ''userId'' ?r1 = Next ?r1"
    by (simp add: demo_owner_user demo_userId)
  have "(params ?r2 ''userId'' = Some (JStr [])
          \<or> params ?r2 ''userId'' = None \<and> ''userId'' \<notin> set object_prototype_keys)
        \<and> body ?r2 = Some [''userId'' \<mapsto> JStr ?id]"
    using k by (simp add: demo_owner_user)
  with requireOwnership_grants_iff [where req = ?r2 and u = ?u and k = "''userId''"
      and b = "[''userId'' \<mapsto> JStr ?id]" and ts = "''T''"]
  have g2: "requireOwnership ''T'' ''userId'' ?r2 = Next ?r2"
    by (simp add: demo_owner_user demo_userId)
  have "params ?r3 ''userId'' = None
        \<and> (body ?r3 = None \<or> (\<exists>b'. body ?r3 = Some b' \<and> b' ''userId'' = None))"
    by (simp add: demo_owner_user)
  with requireOwnership_grants_iff [where req = ?r3 and u = ?u and k = "''userId''" and ts = "''T''"]
  have g3: "\<forall>r. requireOwnership ''T'' ''userId'' ?r3 \<noteq> Next r"
    by (simp add: demo_owner_user)
  have "params ?r4 ''userId'' = None
        \<and> (body ?r4 = None \<or> (\<exists>b'. body ?r4 = Some b' \<and> b' ''userId'' = None))"
    by (simp add: demo_owner_user)
  with requireOwnership_grants_iff [where req = ?r4 and u = ?u and k = "''userId''" and ts = "''T''"]
  have g4: "\<forall>r. requireOwnership ''T'' ''userId'' ?r4 \<noteq> Next r"
    by (simp add: demo_owner_user)
  from g1 g2 k g3 g4 show ?thesis by blast
qed

section \<open>Properties of the validation gate\<close>

subsection \<open>Reading a numeral\<close>

lemma digit_char_value: "d < 10 \<Longrightarrow> digit_value (''0123456789'' ! d) = Some d"
proof -
  assume "d < 10"
  then have "d \<in> {0, 1, 2, 3, 4, 5, 6, 7, 8, 9}" by auto
  then show ?thesis by (auto simp: digit_value_def)
qed

lemma digit_char_plain:
  assumes "d < 10"
  shows "\<not> js_whitespace (of_char (''0123456789'' ! d))"
    and "''0123456789'' ! d \<noteq> CHR ''-''" and "''0123456789'' ! d \<noteq> CHR ''+''"
proof -
  from assms have "d \<in> {0, 1, 2, 3, 4, 5, 6, 7, 8, 9}" by auto
  then show "\<not> js_whitespace (of_char (''0123456789'' ! d))"
    and "''0123456789'' ! d \<noteq> CHR ''-''" and "''0123456789'' ! d \<noteq> CHR ''+''"
    by (auto simp: js_whitespace_def)
qed

lemma decimal_nonempty: "decimal n \<noteq> []"
  by (subst decimal.simps) simp

lemma decimal_hd_digit: "digit_value (hd (decimal n)) = Some (the (digit_value (hd (decimal n))))
  \<and> \<not> js_whitespace (of_char (hd (decimal n)))
  \<and> hd (decimal n) \<noteq> CHR ''-'' \<and> hd (decimal n) \<noteq> CHR ''+''"
proof (induction n rule: decimal.induct)
  case (1 n)
  show ?case
  proof (cases "n < 10")
    case True
    then have "decimal n = [''0123456789'' ! n]" by (subst decimal.simps) simp
    with True show ?thesis by (simp add: digit_char_value digit_char_plain)
  next
    case False
    then have "decimal n = decimal (n div 10) @ [''0123456789'' ! (n mod 10)]"
      by (subst decimal.simps) simp
    with 1 False show ?thesis by (simp add: decimal_nonempty)
  qed
qed

lemma digits_value_decimal:
  "digits_value acc (decimal n @ rest)
     = digits_value (acc * 10 ^ length (decimal n) + n) rest"
proof (induction n arbitrary: acc rest rule: decimal.induct)
  case (1 n)
  show ?case
  proof (cases "n < 10")
    case True
    then have "decimal n = [''0123456789'' ! n]" by (subst decimal.simps) simp
    with True show ?thesis by (simp add: digit_char_value mult.commute)
  next
    case False
    then have d: "decimal n = decimal (n div 10) @ [''0123456789'' ! (n mod 10)]"
      by (subst decimal.simps) simp
    have m: "n mod 10 < 10" by simp
    have "digits_value acc (decimal n @ rest)
          = digits_value acc (decimal (n div 10) @ (''0123456789'' ! (n mod 10)) # rest)"
      by (simp add: d)
    also have "\<dots> = digits_value (acc * 10 ^ length (decimal (n div 10)) + n div 10)
                       ((''0123456789'' ! (n mod 10)) # rest)"
      using 1 False by simp
    also have "\<dots> = digits_value (10 * (acc * 10 ^ length (decimal (n div 10)) + n div 10)
                                  + n mod 10) rest"
      by (simp add: digit_char_value [OF m])
    also have "10 * (acc * 10 ^ length (decimal (n div 10)) + n div 10) + n mod 10
               = acc * 10 ^ length (decimal n) + n"
      by (simp add: d algebra_simps)
    finally show ?thesis .
  qed
qed

lemma digits_value_stop: "rest = [] \<or> digit_value (hd rest) = None \<Longrightarrow> digits_value a rest = a"
  by (cases rest) auto

lemma digits_value_zeros:
  "digits_value 0 (replicate z CHR ''0'' @ cs) = digits_value 0 cs"
  by (induction z) (simp_all add: digit_value_def)


lemma dropWhile_whitespace:
  assumes "\<forall>c \<in> set ws. js_whitespace (of_char c)"
    and "xs = [] \<or> \<not> js_whitespace (of_char (hd xs))"
  shows "dropWhile (\<lambda>c. js_whitespace (of_char c)) (ws @ xs) = xs"
proof -
  from assms(1) have "dropWhile (\<lambda>c. js_whitespace (of_char c)) (ws @ xs)
                      = dropWhile (\<lambda>c. js_whitespace (of_char c)) xs"
    by (simp add: dropWhile_append2)
  also from assms(2) have "\<dots> = xs" by (cases xs) auto
  finally show ?thesis .
qed

lemma zeros_decimal_hd:
  "digit_value (hd (replicate z CHR ''0'' @ decimal n @ rest)) \<noteq> None
   \<and> \<not> js_whitespace (of_char (hd (replicate z CHR ''0'' @ decimal n @ rest)))
   \<and> hd (replicate z CHR ''0'' @ decimal n @ rest) \<noteq> CHR ''-''
   \<and> hd (replicate z CHR ''0'' @ decimal n @ rest) \<noteq> CHR ''+''"
proof (cases z)
  case 0
  with decimal_hd_digit [of n] show ?thesis
    by (simp add: decimal_nonempty) (metis option.distinct(1))
next
  case (Suc k)
  then show ?thesis by (simp add: digit_value_def js_whitespace_def)
qed

lemma zeros_decimal_value:
  assumes "rest = [] \<or> digit_value (hd rest) = None"
  shows "digits_value 0 (replicate z CHR ''0'' @ decimal n @ rest) = n"
  using assms by (simp add: digits_value_zeros digits_value_decimal digits_value_stop)

lemma parseInt_digits:
  assumes trim: "dropWhile (\<lambda>c. js_whitespace (of_char c)) s = sg @ d # ds"
    and sg: "sg = [] \<or> sg = ''+'' \<or> sg = ''-''"
    and d: "digit_value d = Some y" "d \<noteq> CHR ''-''" "d \<noteq> CHR ''+''"
  shows "parseInt s = to_number (if sg = ''-'' then - int (digits_value 0 (d # ds))
                                 else int (digits_value 0 (d # ds)))"
  using sg
proof (elim disjE)
  assume "sg = []"
  with trim d show ?thesis by (simp add: parseInt_def Let_def)
next
  assume "sg = ''+''"
  with trim d show ?thesis by (simp add: parseInt_def Let_def)
next
  assume "sg = ''-''"
  with trim d show ?thesis by (simp add: parseInt_def Let_def)
qed

lemma parseInt_numeral:
  assumes ws: "\<forall>c \<in> set ws. js_whitespace (of_char c)"
    and sg: "sg = [] \<or> sg = ''+'' \<or> sg = ''-''"
    and rest: "rest = [] \<or> digit_value (hd rest) = None"
  shows "parseInt (ws @ sg @ replicate z CHR ''0'' @ decimal n @ rest)
         = to_number (if sg = ''-'' then - int n else int n)"
proof -
  define xs where "xs = replicate z CHR ''0'' @ decimal n @ rest"
  have h: "digit_value (hd xs) \<noteq> None" "\<not> js_whitespace (of_char (hd xs))"
    "hd xs \<noteq> CHR ''-''" "hd xs \<noteq> CHR ''+''"
    unfolding xs_def using zeros_decimal_hd [of z n rest] by blast+
  have ne: "xs \<noteq> []" unfolding xs_def by (simp add: decimal_nonempty)
  have v: "digits_value 0 xs = n"
    unfolding xs_def by (rule zeros_decimal_value [OF rest])
  from ne obtain d ds where ds: "xs = d # ds" by (cases xs) auto
  have hd: "hd xs = d" by (simp add: ds)
  from h have d': "digit_value d \<noteq> None" and d: "d \<noteq> CHR ''-''" "d \<noteq> CHR ''+''"
    and nw: "\<not> js_whitespace (of_char d)"
    unfolding hd by blast+
  from d' obtain y where y: "digit_value d = Some y" by blast
  have "sg @ d # ds = [] \<or> \<not> js_whitespace (of_char (hd (sg @ d # ds)))"
  proof -
    have "\<not> js_whitespace (of_char CHR ''+'')" "\<not> js_whitespace (of_char CHR ''-'')"
      by (simp_all add: js_whitespace_def)
    with sg nw show ?thesis by auto
  qed
  from dropWhile_whitespace [OF ws this]
  have "dropWhile (\<lambda>c. js_whitespace (of_char c)) (ws @ sg @ xs) = sg @ d # ds"
    by (simp add: ds)
  from parseInt_digits [OF this sg y d] v ds
  have "parseInt (ws @ sg @ xs) = to_number (if sg = ''-'' then - int n else int n)"
    by simp
  then show ?thesis by (simp add: xs_def)
qed

lemma parseInt_trimmed_nan:
  assumes trim: "dropWhile (\<lambda>c. js_whitespace (of_char c)) s = sg @ rest"
    and sg: "sg = [] \<or> sg = ''+'' \<or> sg = ''-''"
    and rest: "rest = [] \<or> digit_value (hd rest) = None
                 \<and> (sg = [] \<longrightarrow> hd rest \<noteq> CHR ''+'' \<and> hd rest \<noteq> CHR ''-'')"
  shows "parseInt s = NaN"
proof (cases rest)
  case Nil
  with trim sg show ?thesis by (auto simp: parseInt_def Let_def digit_value_def)
next
  case (Cons x xs)
  with rest have x: "digit_value x = None" "sg = [] \<longrightarrow> x \<noteq> CHR ''+'' \<and> x \<noteq> CHR ''-''"
    by simp_all
  from sg show ?thesis
  proof (elim disjE)
    assume "sg = []"
    with trim Cons x show ?thesis by (simp add: parseInt_def Let_def)
  next
    assume "sg = ''+''"
    with trim Cons x show ?thesis by (simp add: parseInt_def Let_def)
  next
    assume "sg = ''-''"
    with trim Cons x show ?thesis by (simp add: parseInt_def Let_def)
  qed
qed

lemma parseInt_no_digit:
  assumes ws: "\<forall>c \<in> set ws. js_whitespace (of_char c)"
    and sg: "sg = [] \<or> sg = ''+'' \<or> sg = ''-''"
    and rest: "rest = [] \<or> digit_value (hd rest) = None
                 \<and> (sg = [] \<longrightarrow> \<not> js_whitespace (of_char (hd rest))
                       \<and> hd rest \<noteq> CHR ''+'' \<and> hd rest \<noteq> CHR ''-'')"
  shows "parseInt (ws @ sg @ rest) = NaN"
proof -
  have "sg @ rest = [] \<or> \<not> js_whitespace (of_char (hd (sg @ rest)))"
  proof -
    have "\<not> js_whitespace (of_char CHR ''+'')" "\<not> js_whitespace (of_char CHR ''-'')"
      by (simp_all add: js_whitespace_def)
    with sg rest show ?thesis by auto
  qed
  from dropWhile_whitespace [OF ws this]
  have "dropWhile (\<lambda>c. js_whitespace (of_char c)) (ws @ sg @ rest) = sg @ rest" .
  from parseInt_trimmed_nan [OF this sg] rest show ?thesis by blast
qed

lemma parseInt_examples:
  "parseInt ''2'' = Safe 2" "parseInt ''25'' = Safe 25" "parseInt ''0'' = Safe 0"
  "parseInt ''-1'' = Safe (- 1)" "parseInt ''150'' = Safe 150" "parseInt ''abc'' = NaN"
  "parseInt [CHR 0xA0, CHR ''5''] = Safe 5"
  "parseInt ''9007199254740993'' = Huge False"
  by (simp_all add: parseInt_def Let_def js_whitespace_def digit_value_def to_number_def)

lemma code_unit_char: "(of_char c :: nat) = of_char d \<Longrightarrow> c = d"
  by (simp add: of_char_eq_iff)

lemma whitespace_char_iff: "js_whitespace (of_char c) \<longleftrightarrow> c \<in> set whitespace_chars"
proof
  assume "c \<in> set whitespace_chars"
  then show "js_whitespace (of_char c)"
    by (auto simp: whitespace_chars_def js_whitespace_def)
next
  assume w: "js_whitespace (of_char c)"
  have lt: "(of_char c :: nat) < 256" by simp
  from w lt have "(of_char c :: nat) \<in> {0x09, 0x0A, 0x0B, 0x0C, 0x0D, 0x20, 0xA0}"
    by (auto simp: js_whitespace_def)
  then have "(of_char c :: nat) \<in> of_char ` set whitespace_chars"
    by (simp add: whitespace_chars_def)
  then obtain d where "d \<in> set whitespace_chars" "(of_char c :: nat) = of_char d"
    by blast
  with code_unit_char show "c \<in> set whitespace_chars" by blast
qed

lemma digit_char_iff: "digit_value c = None \<longleftrightarrow> c \<notin> set digit_chars"
  by (auto simp: digit_value_def digit_chars_def)

lemma parseInt_numeral_chars:
  assumes "set ws \<subseteq> set whitespace_chars" and "sg = [] \<or> sg = ''+'' \<or> sg = ''-''"
    and "rest = [] \<or> hd rest \<notin> set digit_chars"
  shows "parseInt (ws @ sg @ replicate z CHR ''0'' @ decimal n @ rest)
         = to_number (if sg = ''-'' then - int n else int n)"
proof -
  from assms(1) have ws: "\<forall>c \<in> set ws. js_whitespace (of_char c)"
    by (auto simp: whitespace_char_iff)
  from assms(3) have rest: "rest = [] \<or> digit_value (hd rest) = None"
    by (simp add: digit_char_iff)
  show ?thesis by (rule parseInt_numeral [OF ws assms(2) rest])
qed

lemma parseInt_no_digit_chars:
  assumes "set ws \<subseteq> set whitespace_chars" and "sg = [] \<or> sg = ''+'' \<or> sg = ''-''"
    and "rest = [] \<or> hd rest \<notin> set digit_chars
           \<and> (sg = [] \<longrightarrow> hd rest \<notin> set whitespace_chars
                 \<and> hd rest \<noteq> CHR ''+'' \<and> hd rest \<noteq> CHR ''-'')"
  shows "parseInt (ws @ sg @ rest) = NaN"
proof -
  from assms(1) have ws: "\<forall>c \<in> set ws. js_whitespace (of_char c)"
    by (auto simp: whitespace_char_iff)
  from assms(3) have rest: "rest = [] \<or> digit_value (hd rest) = None
                 \<and> (sg = [] \<longrightarrow> \<not> js_whitespace (of_char (hd rest))
                       \<and> hd rest \<noteq> CHR ''+'' \<and> hd rest \<noteq> CHR ''-'')"
    by (simp add: digit_char_iff whitespace_char_iff)
  show ?thesis by (rule parseInt_no_digit [OF ws assms(2) rest])
qed

lemma to_number_cases:
  "n \<le> 9007199254740991 \<Longrightarrow> to_number (if neg then - int n else int n)
      = Safe (if neg then - int n else int n)"
  "9007199254740991 < n \<Longrightarrow> to_number (if neg then - int n else int n) = Huge neg"
  by (auto simp: to_number_def)

subsection \<open>Collecting the issues\<close>




















subsection \<open>The pagination schema\<close>

lemma number_field_accepts:
  "number_field type_msg key dflt ok msg v = Inr k \<Longrightarrow> ok k"
  by (auto simp: number_field_def Let_def split: js_value.splits if_splits)


lemma number_field_string_or_absent:
  assumes "obj k = None \<or> obj k = Some (JStr s)" and "k \<notin> set object_prototype_keys"
    and "v = (if obj k = None \<or> s = [] then Safe dflt else parseInt s)"
  shows "number_field type_msg k dflt ok msg (js_get obj k)
         = (if ok v then Inr v else Inl [\<lparr>issue_path = [k], issue_message = msg\<rparr>])"
  using assms by (auto simp: number_field_def js_get_def Let_def)

lemma issues_of_simps: "issues_of (Inl xs) = xs" "issues_of (Inr v) = []"
  by (simp_all add: issues_of_def)

lemma pagination_keys: "''page'' \<notin> set object_prototype_keys" "''limit'' \<notin> set object_prototype_keys"
  by (simp_all add: object_prototype_keys_def)

lemma paginationSchema_strings:
  assumes "obj ''page'' = None \<or> obj ''page'' = Some (JStr sp)"
    and "obj ''limit'' = None \<or> obj ''limit'' = Some (JStr sl)"
    and p: "p = (if obj ''page'' = None \<or> sp = [] then Safe 1 else parseInt sp)"
    and l: "l = (if obj ''limit'' = None \<or> sl = [] then Safe 10 else parseInt sl)"
  shows "paginationSchema type_msg (Some obj)
         = (if js_gt p 0 \<and> js_gt l 0 \<and> js_le l 100
            then Parsed [''page'' \<mapsto> JNum p, ''limit'' \<mapsto> JNum l]
            else ZodError
                   ((if js_gt p 0 then []
                     else [\<lparr>issue_path = [''page''],
                            issue_message = ''Page must be a positive integer''\<rparr>])
                    @ (if js_gt l 0 \<and> js_le l 100 then []
                       else [\<lparr>issue_path = [''limit''],
                              issue_message = ''Limit must be between 1 and 100''\<rparr>])))"
proof -
  have pg: "number_field type_msg ''page'' 1 (\<lambda>val. js_gt val 0)
              ''Page must be a positive integer'' (js_get obj ''page'')
            = (if js_gt p 0 then Inr p
               else Inl [\<lparr>issue_path = [''page''],
                          issue_message = ''Page must be a positive integer''\<rparr>])"
    using number_field_string_or_absent [where obj = obj and k = "''page''" and s = sp
        and v = p and dflt = 1] assms(1) pagination_keys(1) p
    by blast
  have lm: "number_field type_msg ''limit'' 10 (\<lambda>val. js_gt val 0 \<and> js_le val 100)
              ''Limit must be between 1 and 100'' (js_get obj ''limit'')
            = (if js_gt l 0 \<and> js_le l 100 then Inr l
               else Inl [\<lparr>issue_path = [''limit''],
                          issue_message = ''Limit must be between 1 and 100''\<rparr>])"
    using number_field_string_or_absent [where obj = obj and k = "''limit''" and s = sl
        and v = l and dflt = 10] assms(2) pagination_keys(2) l
    by blast
  show ?thesis
    unfolding paginationSchema_def option.case Let_def pg lm
    by (simp add: issues_of_simps)
qed

lemma js_range:
  "js_gt l 0 \<and> js_le l 100 \<longleftrightarrow> (\<exists>n. l = Safe n \<and> 0 < n \<and> n \<le> 100)"
  by (cases l) auto

lemma js_positive: "js_gt p 0 \<longleftrightarrow> (\<exists>n. p = Safe n \<and> 0 < n) \<or> p = Huge False"
  by (cases p) auto

lemma paginationSchema_Parsed:
  assumes "paginationSchema type_msg data = Parsed out"
  shows "\<exists>p l. out = [''page'' \<mapsto> JNum p, ''limit'' \<mapsto> JNum (Safe l)]
           \<and> ((\<exists>n. p = Safe n \<and> 0 < n) \<or> p = Huge False) \<and> 0 < l \<and> l \<le> 100"
proof (cases data)
  case None
  with assms show ?thesis by (simp add: paginationSchema_def)
next
  case (Some obj)
  let ?page = "number_field type_msg ''page'' 1 (\<lambda>val. js_gt val 0)
                 ''Page must be a positive integer'' (js_get obj ''page'')"
  let ?limit = "number_field type_msg ''limit'' 10 (\<lambda>val. js_gt val 0 \<and> js_le val 100)
                  ''Limit must be between 1 and 100'' (js_get obj ''limit'')"
  from assms Some obtain p l where pl: "?page = Inr p" "?limit = Inr l"
    and out: "out = [''page'' \<mapsto> JNum p, ''limit'' \<mapsto> JNum l]"
    by (auto simp: paginationSchema_def Let_def split: sum.splits)
  from number_field_accepts [OF pl(1)] have "(\<exists>n. p = Safe n \<and> 0 < n) \<or> p = Huge False"
    by (simp add: js_positive)
  moreover from number_field_accepts [OF pl(2)] obtain n where "l = Safe n" "0 < n" "n \<le> 100"
    by (auto simp: js_range)
  ultimately show ?thesis using out by blast
qed



lemma pagination_examples:
  "paginationSchema type_msg (Some [''page'' \<mapsto> JStr ''2'', ''limit'' \<mapsto> JStr ''25''])
     = Parsed [''page'' \<mapsto> JNum (Safe 2), ''limit'' \<mapsto> JNum (Safe 25)]"
  "paginationSchema type_msg (Some Map.empty)
     = Parsed [''page'' \<mapsto> JNum (Safe 1), ''limit'' \<mapsto> JNum (Safe 10)]"
  using paginationSchema_strings [of "[''page'' \<mapsto> JStr ''2'', ''limit'' \<mapsto> JStr ''25'']"
      "''2''" "''25''" "Safe 2" "Safe 25" type_msg]
    paginationSchema_strings [of Map.empty "[]" "[]" "Safe 1" "Safe 10" type_msg]
  by (simp_all add: parseInt_examples)

lemma validate_Parsed_query:
  "schema (Some (query req)) = Parsed v
   \<Longrightarrow> validate ts schema SQuery req = Next (req\<lparr>validatedQuery := Some v\<rparr>)"
  by (simp add: validate_def)






subsection \<open>One report for every failing field\<close>



subsection \<open>Coercion and defaults\<close>

text \<open>
  Claim C8.  On the pagination schema the query \<open>{page: "2", limit: "25"}\<close> validates
  to \<open>{page: 2, limit: 25}\<close> and the empty query to \<open>{page: 1, limit: 10}\<close>; the
  middleware stores what the schema returns as \<open>validatedQuery\<close> and proceeds.  The
  coercion reads every numeral: after white space, an optional sign and leading zeros,
  the decimal numeral of \<open>n\<close>, followed by nothing or by something that is no digit,
  gives \<open>n\<close> with that sign while \<open>n\<close> is below \<open>2^53\<close>, and a number of that sign
  and of magnitude at least \<open>2^53\<close> beyond; a string with no digit in that place gives
  \<open>NaN\<close>.  A field that is absent or the empty string takes its default.  The schema
  accepts exactly when \<open>page\<close> is positive and \<open>limit\<close> is from 1 to 100, and
  otherwise reports "Page must be a positive integer", "Limit must be between 1 and
  100", or both.
\<close>

theorem paginationSchema_coerces_and_defaults:
  "(query req = [''page'' \<mapsto> JStr ''2'', ''limit'' \<mapsto> JStr ''25''] \<longrightarrow>
      paginationSchema type_msg (Some (query req))
        = Parsed [''page'' \<mapsto> JNum (Safe 2), ''limit'' \<mapsto> JNum (Safe 25)]
      \<and> validate ts (paginationSchema type_msg) SQuery req
        = Next (req\<lparr>validatedQuery :=
                      Some [''page'' \<mapsto> JNum (Safe 2), ''limit'' \<mapsto> JNum (Safe 25)]\<rparr>))
   \<and> (query req' = Map.empty \<longrightarrow>
      paginationSchema type_msg (Some (query req'))
        = Parsed [''page'' \<mapsto> JNum (Safe 1), ''limit'' \<mapsto> JNum (Safe 10)]
      \<and> validate ts (paginationSchema type_msg) SQuery req'
        = Next (req'\<lparr>validatedQuery :=
                       Some [''page'' \<mapsto> JNum (Safe 1), ''limit'' \<mapsto> JNum (Safe 10)]\<rparr>))
   \<and> (set ws \<subseteq> set whitespace_chars \<and> (sg = [] \<or> sg = ''+'' \<or> sg = ''-'')
        \<and> (rest = [] \<or> hd rest \<notin> set digit_chars) \<longrightarrow>
      (n \<le> 9007199254740991 \<longrightarrow>
         parseInt (ws @ sg @ replicate z CHR ''0'' @ decimal n @ rest)
           = Safe (if sg = ''-'' then - int n else int n))
      \<and> (9007199254740991 < n \<longrightarrow>
         parseInt (ws @ sg @ replicate z CHR ''0'' @ decimal n @ rest) = Huge (sg = ''-'')))
   \<and> (set ws' \<subseteq> set whitespace_chars \<and> (sg' = [] \<or> sg' = ''+'' \<or> sg' = ''-'')
        \<and> (rest' = [] \<or> hd rest' \<notin> set digit_chars
              \<and> (sg' = [] \<longrightarrow> hd rest' \<notin> set whitespace_chars
                    \<and> hd rest' \<noteq> CHR ''+'' \<and> hd rest' \<noteq> CHR ''-'')) \<longrightarrow>
      parseInt (ws' @ sg' @ rest') = NaN)
   \<and> ((obj ''page'' = None \<or> obj ''page'' = Some (JStr sp))
        \<and> (obj ''limit'' = None \<or> obj ''limit'' = Some (JStr sl))
        \<and> p = (if obj ''page'' = None \<or> sp = [] then Safe 1 else parseInt sp)
        \<and> l = (if obj ''limit'' = None \<or> sl = [] then Safe 10 else parseInt sl) \<longrightarrow>
      paginationSchema type_msg (Some obj)
        = (if js_gt p 0 \<and> js_gt l 0 \<and> js_le l 100
           then Parsed [''page'' \<mapsto> JNum p, ''limit'' \<mapsto> JNum l]
           else ZodError
                  ((if js_gt p 0 then []
                    else [\<lparr>issue_path = [''page''],
                           issue_message = ''Page must be a positive integer''\<rparr>])
                   @ (if js_gt l 0 \<and> js_le l 100 then []
                      else [\<lparr>issue_path = [''limit''],
                             issue_message = ''Limit must be between 1 and 100''\<rparr>]))))
   \<and> (paginationSchema type_msg (Some (query rq)) = Parsed v \<longrightarrow>
      validate ts (paginationSchema type_msg) SQuery rq = Next (rq\<lparr>validatedQuery := Some v\<rparr>))
   \<and> (paginationSchema type_msg data = Parsed out \<longrightarrow>
      (\<exists>pv lv. out = [''page'' \<mapsto> JNum pv, ''limit'' \<mapsto> JNum (Safe lv)]
         \<and> ((\<exists>k. pv = Safe k \<and> 0 < k) \<or> pv = Huge False) \<and> 0 < lv \<and> lv \<le> 100))"
proof (intro conjI impI)
  assume q: "query req = [''page'' \<mapsto> JStr ''2'', ''limit'' \<mapsto> JStr ''25'']"
  then show p: "paginationSchema type_msg (Some (query req))
        = Parsed [''page'' \<mapsto> JNum (Safe 2), ''limit'' \<mapsto> JNum (Safe 25)]"
    by (simp add: pagination_examples)
  from validate_Parsed_query [of "paginationSchema type_msg" req _ ts] p
  show "validate ts (paginationSchema type_msg) SQuery req
        = Next (req\<lparr>validatedQuery :=
                      Some [''page'' \<mapsto> JNum (Safe 2), ''limit'' \<mapsto> JNum (Safe 25)]\<rparr>)"
    by simp
next
  assume q: "query req' = Map.empty"
  then show p: "paginationSchema type_msg (Some (query req'))
        = Parsed [''page'' \<mapsto> JNum (Safe 1), ''limit'' \<mapsto> JNum (Safe 10)]"
    by (simp add: pagination_examples)
  from validate_Parsed_query [of "paginationSchema type_msg" req' _ ts] p
  show "validate ts (paginationSchema type_msg) SQuery req'
        = Next (req'\<lparr>validatedQuery :=
                       Some [''page'' \<mapsto> JNum (Safe 1), ''limit'' \<mapsto> JNum (Safe 10)]\<rparr>)"
    by simp
next
  assume a: "set ws \<subseteq> set whitespace_chars \<and> (sg = [] \<or> sg = ''+'' \<or> sg = ''-'')
        \<and> (rest = [] \<or> hd rest \<notin> set digit_chars)"
  then have e: "parseInt (ws @ sg @ replicate z CHR ''0'' @ decimal n @ rest)
                = to_number (if sg = ''-'' then - int n else int n)"
    using parseInt_numeral_chars by blast
  show "n \<le> 9007199254740991 \<Longrightarrow>
         parseInt (ws @ sg @ replicate z CHR ''0'' @ decimal n @ rest)
           = Safe (if sg = ''-'' then - int n else int n)"
    unfolding e by (rule to_number_cases(1))
  show "9007199254740991 < n \<Longrightarrow>
         parseInt (ws @ sg @ replicate z CHR ''0'' @ decimal n @ rest) = Huge (sg = ''-'')"
    unfolding e by (rule to_number_cases(2))
next
  assume "set ws' \<subseteq> set whitespace_chars \<and> (sg' = [] \<or> sg' = ''+'' \<or> sg' = ''-'')
        \<and> (rest' = [] \<or> hd rest' \<notin> set digit_chars
              \<and> (sg' = [] \<longrightarrow> hd rest' \<notin> set whitespace_chars
                    \<and> hd rest' \<noteq> CHR ''+'' \<and> hd rest' \<noteq> CHR ''-''))"
  then show "parseInt (ws' @ sg' @ rest') = NaN"
    using parseInt_no_digit_chars by blast
next
  assume "(obj ''page'' = None \<or> obj ''page'' = Some (JStr sp))
        \<and> (obj ''limit'' = None \<or> obj ''limit'' = Some (JStr sl))
        \<and> p = (if obj ''page'' = None \<or> sp = [] then Safe 1 else parseInt sp)
        \<and> l = (if obj ''limit'' = None \<or> sl = [] then Safe 10 else parseInt sl)"
  then show "paginationSchema type_msg (Some obj)
        = (if js_gt p 0 \<and> js_gt l 0 \<and> js_le l 100
           then Parsed [''page'' \<mapsto> JNum p, ''limit'' \<mapsto> JNum l]
           else ZodError
                  ((if js_gt p 0 then []
                    else [\<lparr>issue_path = [''page''],
                           issue_message = ''Page must be a positive integer''\<rparr>])
                   @ (if js_gt l 0 \<and> js_le l 100 then []
                      else [\<lparr>issue_path = [''limit''],
                             issue_message = ''Limit must be between 1 and 100''\<rparr>])))"
    using paginationSchema_strings [of obj sp sl p l type_msg] by blast
next
  assume "paginationSchema type_msg (Some (query rq)) = Parsed v"
  from validate_Parsed_query [of "paginationSchema type_msg" rq v ts] this
  show "validate ts (paginationSchema type_msg) SQuery rq = Next (rq\<lparr>validatedQuery := Some v\<rparr>)"
    by simp
next
  assume "paginationSchema type_msg data = Parsed out"
  then show "\<exists>pv lv. out = [''page'' \<mapsto> JNum pv, ''limit'' \<mapsto> JNum (Safe lv)]
         \<and> ((\<exists>k. pv = Safe k \<and> 0 < k) \<or> pv = Huge False) \<and> 0 < lv \<and> lv \<le> 100"
    by (rule paginationSchema_Parsed)
qed

text \<open>
  The theorem at the two queries of the claim, at minus 42 written with a no-break
  space before and \<open>px\<close> after, at \<open>9007199254740993\<close> and at \<open>abc\<close>, at the
  rejected query \<open>{page: "0", limit: "150"}\<close> and at a page of 5 after a no-break
  space.
\<close>

theorem paginationSchema_coerces_and_defaults_witness:
  "query (demo_query_request [''page'' \<mapsto> JStr ''2'', ''limit'' \<mapsto> JStr ''25''])
     = [''page'' \<mapsto> JStr ''2'', ''limit'' \<mapsto> JStr ''25'']
   \<and> validate ''T'' (paginationSchema (\<lambda>v. ''Invalid input'')) SQuery
         (demo_query_request [''page'' \<mapsto> JStr ''2'', ''limit'' \<mapsto> JStr ''25''])
       = Next ((demo_query_request [''page'' \<mapsto> JStr ''2'', ''limit'' \<mapsto> JStr ''25''])
                 \<lparr>validatedQuery :=
                    Some [''page'' \<mapsto> JNum (Safe 2), ''limit'' \<mapsto> JNum (Safe 25)]\<rparr>)
   \<and> query (demo_query_request Map.empty) = Map.empty
   \<and> validate ''T'' (paginationSchema (\<lambda>v. ''Invalid input'')) SQuery
         (demo_query_request Map.empty)
       = Next ((demo_query_request Map.empty)
                 \<lparr>validatedQuery :=
                    Some [''page'' \<mapsto> JNum (Safe 1), ''limit'' \<mapsto> JNum (Safe 10)]\<rparr>)
   \<and> set [CHR 0xA0, CHR '' ''] \<subseteq> set whitespace_chars
   \<and> hd ''px'' \<notin> set digit_chars
   \<and> (42::nat) \<le> 9007199254740991
   \<and> decimal 42 = ''42''
   \<and> parseInt ([CHR 0xA0, CHR '' ''] @ ''-'' @ ''00'' @ ''42'' @ ''px'') = Safe (- 42)
   \<and> (9007199254740991::nat) < 9007199254740993
   \<and> decimal 9007199254740993 = ''9007199254740993''
   \<and> parseInt ''9007199254740993'' = Huge False
   \<and> hd ''abc'' \<notin> set digit_chars \<and> hd ''abc'' \<notin> set whitespace_chars
   \<and> parseInt ''abc'' = NaN
   \<and> parseInt ''0'' = Safe 0 \<and> parseInt ''150'' = Safe 150
   \<and> paginationSchema (\<lambda>v. ''Invalid input'')
         (Some [''page'' \<mapsto> JStr ''0'', ''limit'' \<mapsto> JStr ''150''])
       = ZodError [\<lparr>issue_path = [''page''],
                     issue_message = ''Page must be a positive integer''\<rparr>,
                   \<lparr>issue_path = [''limit''],
                     issue_message = ''Limit must be between 1 and 100''\<rparr>]
   \<and> parseInt [CHR 0xA0, CHR ''5''] = Safe 5
   \<and> paginationSchema (\<lambda>v. ''Invalid input'') (Some [''page'' \<mapsto> JStr [CHR 0xA0, CHR ''5'']])
       = Parsed [''page'' \<mapsto> JNum (Safe 5), ''limit'' \<mapsto> JNum (Safe 10)]
   \<and> (\<exists>pv lv. [''page'' \<mapsto> JNum (Safe 1), ''limit'' \<mapsto> JNum (Safe 10)]
                 = [''page'' \<mapsto> JNum pv, ''limit'' \<mapsto> JNum (Safe lv)]
          \<and> ((\<exists>k. pv = Safe k \<and> 0 < k) \<or> pv = Huge False) \<and> 0 < lv \<and> lv \<le> 100)"
proof -
  let ?tm = "\<lambda>v::js_value. ''Invalid input''"
  let ?q = "[''page'' \<mapsto> JStr ''2'', ''limit'' \<mapsto> JStr ''25'']"
  let ?bad = "[''page'' \<mapsto> JStr ''0'', ''limit'' \<mapsto> JStr ''150'']"
  let ?nbsp = "[''page'' \<mapsto> JStr [CHR 0xA0, CHR ''5'']]"
  let ?out = "[''page'' \<mapsto> JNum (Safe 1), ''limit'' \<mapsto> JNum (Safe 10)]"
  note t1 = paginationSchema_coerces_and_defaults [where req = "demo_query_request ?q"
      and type_msg = ?tm and ts = "''T''" and req' = "demo_query_request Map.empty"
      and ws = "[CHR 0xA0, CHR '' '']" and sg = "''-''" and rest = "''px''" and n = 42 and z = 2
      and ws' = "[]" and sg' = "[]" and rest' = "''abc''"
      and obj = ?bad and sp = "''0''" and sl = "''150''" and p = "Safe 0" and l = "Safe 150"
      and rq = "demo_query_request Map.empty" and v = ?out
      and data = "Some Map.empty" and out = ?out]
  note t2 = paginationSchema_coerces_and_defaults [where req = "demo_query_request ?q"
      and type_msg = ?tm and ts = "''T''" and req' = "demo_query_request Map.empty"
      and ws = "[]" and sg = "[]" and rest = "[]" and n = 9007199254740993 and z = 0
      and ws' = "[]" and sg' = "[]" and rest' = "''abc''"
      and obj = ?nbsp and sp = "[CHR 0xA0, CHR ''5'']" and sl = "[]"
      and p = "Safe 5" and l = "Safe 10"
      and rq = "demo_query_request Map.empty" and v = ?out
      and data = "Some Map.empty" and out = ?out]
  have q1: "query (demo_query_request ?q) = ?q" by (simp add: demo_query_request_def)
  have q2: "query (demo_query_request Map.empty) = Map.empty"
    by (simp add: demo_query_request_def)
  from t1 q1 have c1: "validate ''T'' (paginationSchema ?tm) SQuery (demo_query_request ?q)
       = Next ((demo_query_request ?q)\<lparr>validatedQuery :=
                    Some [''page'' \<mapsto> JNum (Safe 2), ''limit'' \<mapsto> JNum (Safe 25)]\<rparr>)"
    by blast
  from t1 q2 have c2: "validate ''T'' (paginationSchema ?tm) SQuery (demo_query_request Map.empty)
       = Next ((demo_query_request Map.empty)\<lparr>validatedQuery := Some ?out\<rparr>)"
    by blast
  have h3: "set [CHR 0xA0, CHR '' ''] \<subseteq> set whitespace_chars" "hd ''px'' \<notin> set digit_chars"
    "(42::nat) \<le> 9007199254740991"
    by (simp_all add: whitespace_chars_def digit_chars_def)
  have d42: "decimal 42 = ''42''" by (simp add: decimal.simps)
  from t1 h3 have "parseInt ([CHR 0xA0, CHR '' ''] @ ''-'' @ replicate 2 CHR ''0''
                     @ decimal 42 @ ''px'')
                   = Safe (if ''-'' = ''-'' then - int 42 else int 42)"
    by blast
  then have c3: "parseInt ([CHR 0xA0, CHR '' ''] @ ''-'' @ ''00'' @ ''42'' @ ''px'') = Safe (- 42)"
    by (simp add: d42 numeral_2_eq_2)
  have h4: "(9007199254740991::nat) < 9007199254740993" by simp
  have dbig: "decimal 9007199254740993 = ''9007199254740993''" by (simp add: decimal.simps)
  have e: "set ([]::string) \<subseteq> set whitespace_chars" "([]::string) = []" by simp_all
  from t2 h4 e have "parseInt ([] @ [] @ replicate 0 CHR ''0'' @ decimal 9007199254740993 @ [])
                   = Huge (([]::string) = ''-'')"
    by blast
  then have c4: "parseInt ''9007199254740993'' = Huge False"
    by (simp add: dbig)
  have h5: "hd ''abc'' \<notin> set digit_chars" "hd ''abc'' \<notin> set whitespace_chars"
    "hd ''abc'' \<noteq> CHR ''+''" "hd ''abc'' \<noteq> CHR ''-''"
    by (simp_all add: whitespace_chars_def digit_chars_def)
  from t1 h5 e have "parseInt ([] @ [] @ ''abc'') = NaN"
    by blast
  then have c5: "parseInt ''abc'' = NaN" by simp
  have p0: "parseInt ''0'' = Safe 0" "parseInt ''150'' = Safe 150"
    "parseInt [CHR 0xA0, CHR ''5''] = Safe 5"
    by (simp_all add: parseInt_examples)
  have h6: "(?bad ''page'' = None \<or> ?bad ''page'' = Some (JStr ''0''))
        \<and> (?bad ''limit'' = None \<or> ?bad ''limit'' = Some (JStr ''150''))
        \<and> Safe 0 = (if ?bad ''page'' = None \<or> ''0'' = [] then Safe 1 else parseInt ''0'')
        \<and> Safe 150 = (if ?bad ''limit'' = None \<or> ''150'' = [] then Safe 10
                       else parseInt ''150'')"
    by (simp add: p0)
  from t1 h6 have "paginationSchema ?tm (Some ?bad)
        = (if js_gt (Safe 0) 0 \<and> js_gt (Safe 150) 0 \<and> js_le (Safe 150) 100
           then Parsed [''page'' \<mapsto> JNum (Safe 0), ''limit'' \<mapsto> JNum (Safe 150)]
           else ZodError
                  ((if js_gt (Safe 0) 0 then []
                    else [\<lparr>issue_path = [''page''],
                           issue_message = ''Page must be a positive integer''\<rparr>])
                   @ (if js_gt (Safe 150) 0 \<and> js_le (Safe 150) 100 then []
                      else [\<lparr>issue_path = [''limit''],
                             issue_message = ''Limit must be between 1 and 100''\<rparr>])))"
    by blast
  then have c6: "paginationSchema ?tm (Some ?bad)
       = ZodError [\<lparr>issue_path = [''page''],
                     issue_message = ''Page must be a positive integer''\<rparr>,
                   \<lparr>issue_path = [''limit''],
                     issue_message = ''Limit must be between 1 and 100''\<rparr>]"
    by simp
  have h7: "(?nbsp ''page'' = None \<or> ?nbsp ''page'' = Some (JStr [CHR 0xA0, CHR ''5'']))
        \<and> (?nbsp ''limit'' = None \<or> ?nbsp ''limit'' = Some (JStr []))
        \<and> Safe 5 = (if ?nbsp ''page'' = None \<or> [CHR 0xA0, CHR ''5''] = [] then Safe 1
                     else parseInt [CHR 0xA0, CHR ''5''])
        \<and> Safe 10 = (if ?nbsp ''limit'' = None \<or> ([]::string) = [] then Safe 10
                      else parseInt [])"
    by (simp add: p0)
  from t2 h7 have "paginationSchema ?tm (Some ?nbsp)
        = (if js_gt (Safe 5) 0 \<and> js_gt (Safe 10) 0 \<and> js_le (Safe 10) 100
           then Parsed [''page'' \<mapsto> JNum (Safe 5), ''limit'' \<mapsto> JNum (Safe 10)]
           else ZodError
                  ((if js_gt (Safe 5) 0 then []
                    else [\<lparr>issue_path = [''page''],
                           issue_message = ''Page must be a positive integer''\<rparr>])
                   @ (if js_gt (Safe 10) 0 \<and> js_le (Safe 10) 100 then []
                      else [\<lparr>issue_path = [''limit''],
                             issue_message = ''Limit must be between 1 and 100''\<rparr>])))"
    by blast
  then have c7: "paginationSchema ?tm (Some ?nbsp)
       = Parsed [''page'' \<mapsto> JNum (Safe 5), ''limit'' \<mapsto> JNum (Safe 10)]"
    by simp
  have h8: "paginationSchema ?tm (Some Map.empty) = Parsed ?out"
    by (rule pagination_examples)
  from t1 h8 have c8: "\<exists>pv lv. ?out = [''page'' \<mapsto> JNum pv, ''limit'' \<mapsto> JNum (Safe lv)]
          \<and> ((\<exists>k. pv = Safe k \<and> 0 < k) \<or> pv = Huge False) \<and> 0 < lv \<and> lv \<le> 100"
    by blast
  from q1 c1 q2 c2 h3 d42 c3 h4 dbig c4 h5(1,2) c5 p0 c6 c7 c8 show ?thesis by blast
qed

section \<open>Properties of the login route\<close>

lemma verifyPassword_null_iff:
  "verifyPassword compare (Users us) em pw = Inr None
   \<longleftrightarrow> find (\<lambda>u. user_email u = em) us = None
       \<or> (\<exists>u. find (\<lambda>u. user_email u = em) us = Some u \<and> \<not> compare pw (password u))"
  by (auto simp: verifyPassword_def findByEmail_def split: option.splits)

lemma login_rejects:
  "verifyPassword compare db em pw = Inr None
   \<Longrightarrow> login ts now cfg enc compare db em pw
       = HandlerNext (AppErr (AuthError ts ''Invalid email or password'' None None))"
  by (simp add: login_def)

text \<open>
  Claim C9.  \<open>verifyPassword\<close> returns null exactly when no stored user has the email
  or the stored user's hash does not match the password.  In both cases the login
  handler calls \<open>next\<close> with the same \<open>AuthError\<close>, "Invalid email or password", and
  the response has status 401 and that message.
\<close>

theorem login_failure_cause_blind:
  "(verifyPassword compare (Users us) em pw = Inr None
      \<longleftrightarrow> find (\<lambda>u. user_email u = em) us = None
          \<or> (\<exists>u. find (\<lambda>u. user_email u = em) us = Some u \<and> \<not> compare pw (password u)))
   \<and> (find (\<lambda>u. user_email u = em_a) us_a = None
        \<and> find (\<lambda>u. user_email u = em_b) us_b = Some u_b \<and> \<not> compare pw_b (password u_b) \<longrightarrow>
      verifyPassword compare (Users us_a) em_a pw_a = Inr None
      \<and> verifyPassword compare (Users us_b) em_b pw_b = Inr None
      \<and> login ts now cfg enc compare (Users us_a) em_a pw_a
          = HandlerNext (AppErr (AuthError ts ''Invalid email or password'' None None))
      \<and> login ts now cfg enc compare (Users us_b) em_b pw_b
          = HandlerNext (AppErr (AuthError ts ''Invalid email or password'' None None))
      \<and> res_status (globalErrorHandler env ts'
            (AppErr (AuthError ts ''Invalid email or password'' None None)) req) = 401
      \<and> res_message (globalErrorHandler env ts'
            (AppErr (AuthError ts ''Invalid email or password'' None None)) req)
          = ''Invalid email or password'')"
proof (intro conjI impI)
  show "verifyPassword compare (Users us) em pw = Inr None
      \<longleftrightarrow> find (\<lambda>u. user_email u = em) us = None
          \<or> (\<exists>u. find (\<lambda>u. user_email u = em) us = Some u \<and> \<not> compare pw (password u))"
    by (rule verifyPassword_null_iff)
next
  assume a: "find (\<lambda>u. user_email u = em_a) us_a = None
        \<and> find (\<lambda>u. user_email u = em_b) us_b = Some u_b \<and> \<not> compare pw_b (password u_b)"
  then show v1: "verifyPassword compare (Users us_a) em_a pw_a = Inr None"
    and v2: "verifyPassword compare (Users us_b) em_b pw_b = Inr None"
    by (simp_all add: verifyPassword_null_iff)
  from login_rejects [OF v1]
  show "login ts now cfg enc compare (Users us_a) em_a pw_a
          = HandlerNext (AppErr (AuthError ts ''Invalid email or password'' None None))" .
  from login_rejects [OF v2]
  show "login ts now cfg enc compare (Users us_b) em_b pw_b
          = HandlerNext (AppErr (AuthError ts ''Invalid email or password'' None None))" .
  show "res_status (globalErrorHandler env ts'
            (AppErr (AuthError ts ''Invalid email or password'' None None)) req) = 401"
    and "res_message (globalErrorHandler env ts'
            (AppErr (AuthError ts ''Invalid email or password'' None None)) req)
          = ''Invalid email or password''"
    by (simp_all add: globalErrorHandler_AppErr AuthError_fields)
qed

text \<open>The theorem at an unknown email and at the stored user with a wrong password.\<close>

theorem login_failure_cause_blind_witness:
  "find (\<lambda>u. user_email u = ''nobody@example.com'') [demo_user] = None
   \<and> find (\<lambda>u. user_email u = ''test@example.com'') [demo_user] = Some demo_user
   \<and> \<not> demo_compare ''wrong-password'' (password demo_user)
   \<and> verifyPassword demo_compare (Users [demo_user]) ''nobody@example.com'' ''password123''
       = Inr None
   \<and> verifyPassword demo_compare (Users [demo_user]) ''test@example.com'' ''wrong-password''
       = Inr None
   \<and> login ''T'' 1000 demo_config demo_enc demo_compare (Users [demo_user])
         ''nobody@example.com'' ''password123''
       = login ''T'' 1000 demo_config demo_enc demo_compare (Users [demo_user])
           ''test@example.com'' ''wrong-password''
   \<and> login ''T'' 1000 demo_config demo_enc demo_compare (Users [demo_user])
         ''test@example.com'' ''wrong-password''
       = HandlerNext (AppErr (AuthError ''T'' ''Invalid email or password'' None None))
   \<and> res_status (globalErrorHandler None ''U''
         (AppErr (AuthError ''T'' ''Invalid email or password'' None None))
         (demo_request None)) = 401"
proof -
  have a: "find (\<lambda>u. user_email u = ''nobody@example.com'') [demo_user] = None"
    and b: "find (\<lambda>u. user_email u = ''test@example.com'') [demo_user] = Some demo_user"
    and c: "\<not> demo_compare ''wrong-password'' (password demo_user)"
    by (simp_all add: demo_user_def demo_compare_def)
  from login_failure_cause_blind [where compare = demo_compare and us_a = "[demo_user]"
      and em_a = "''nobody@example.com''" and pw_a = "''password123''"
      and us_b = "[demo_user]" and em_b = "''test@example.com''"
      and pw_b = "''wrong-password''" and u_b = demo_user and ts = "''T''" and now = 1000
      and cfg = demo_config and enc = demo_enc and env = None and ts' = "''U''"
      and req = "demo_request None" and us = "[]" and em = "[]" and pw = "[]"] a b c
  show ?thesis by simp
qed

end
